theory Spec2Isabelle
  imports Main "HOL-Library.Word"
begin

unbundle bit_operations_syntax

section \<open>Data model (datastore.go)\<close>

text \<open>
  A Go \<^verbatim>\<open>string\<close> is a byte sequence; a HOL \<^typ>\<open>char\<close> is one byte.

  A Go \<^verbatim>\<open>[]byte\<close> is a reference: the nil slice, or a window (offset, length,
  capacity) on a backing array. Several slices may share one array, and the store keeps
  the very slices its callers pass in. The memory is therefore explicit: a list of
  arrays, an array's address being its index. Allocation adds an array at the end;
  nothing is freed.
\<close>

type_synonym byte = char

type_synonym memory = "byte list list"

datatype slice = NilSlice | Slice nat nat nat nat

definition array :: "memory \<Rightarrow> nat \<Rightarrow> byte list" where
  "array m a = (if a < length m then m ! a else [])"

text \<open>The bytes a slice shows, its length and its capacity.\<close>

fun bytes_of :: "memory \<Rightarrow> slice \<Rightarrow> byte list" where
  "bytes_of m NilSlice = []"
| "bytes_of m (Slice a off n c) = take n (drop off (array m a))"

fun len :: "slice \<Rightarrow> nat" where
  "len NilSlice = 0"
| "len (Slice a off n c) = n"

fun cap :: "slice \<Rightarrow> nat" where
  "cap NilSlice = 0"
| "cap (Slice a off n c) = c"



definition copy_at :: "byte list \<Rightarrow> nat \<Rightarrow> byte list \<Rightarrow> byte list" where
  "copy_at arr p xs = take p arr @ xs @ drop (p + length xs) arr"

text \<open>
  Go's builtin \<^verbatim>\<open>append(s, t...)\<close>. When the new length fits the capacity of \<^verbatim>\<open>s\<close>,
  the bytes of \<^verbatim>\<open>t\<close> are copied into the array of \<^verbatim>\<open>s\<close> right after its length,
  in place, and the result is \<^verbatim>\<open>s\<close> with the new length (the nil slice stays nil
  when there is nothing to add). Otherwise a new array is allocated, filled with the
  bytes of \<^verbatim>\<open>s\<close> and \<^verbatim>\<open>t\<close> and zeros up to its capacity. The capacity the runtime
  chooses is not part of this repository: it is the parameter \<open>growcap\<close> (old capacity,
  needed length), and is at least the needed length.
\<close>

definition go_append ::
  "(nat \<Rightarrow> nat \<Rightarrow> nat) \<Rightarrow> memory \<Rightarrow> slice \<Rightarrow> slice \<Rightarrow> memory \<times> slice" where
  "go_append growcap m s t =
     (let xs = bytes_of m t; newlen = len s + length xs
      in if newlen \<le> cap s then
           (case s of
              NilSlice \<Rightarrow> (m, NilSlice)
            | Slice a off n c \<Rightarrow>
                (m[a := copy_at (array m a) (off + n) xs], Slice a off newlen c))
         else
           (let newcap = max newlen (growcap (cap s) newlen)
            in (m @ [bytes_of m s @ xs @ replicate (newcap - newlen) (CHR 0x00)],
                Slice (length m) 0 newlen newcap)))"

text \<open>
  A Go \<^verbatim>\<open>error\<close> is nil (\<open>None\<close>) or an error value; \<^verbatim>\<open>ErrAccessDenied\<close> is the one
  sentinel the package declares.
\<close>

datatype error = ErrAccessDenied | ErrOther string

definition permGet :: "8 word" where "permGet = 1"
definition permPut :: "8 word" where "permPut = 2"
definition permAppend :: "8 word" where "permAppend = 4"

text \<open>
  Go maps are partial functions; a map-typed value that is nil (an absent key of an
  outer map) is \<open>None\<close>. Indexing a map at an absent key yields the zero value of the
  element type: \<^verbatim>\<open>false\<close>, \<^verbatim>\<open>0\<close>, the nil slice.
\<close>

type_synonym kvBytes = "string \<rightharpoonup> slice"
type_synonym kvPerms = "string \<rightharpoonup> 8 word"
type_synonym kvBool = "string \<rightharpoonup> bool"
type_synonym storageType = "string \<rightharpoonup> kvBytes"
type_synonym permsType = "string \<rightharpoonup> (string \<rightharpoonup> kvPerms)"

definition indexBytes :: "kvBytes \<Rightarrow> string \<Rightarrow> slice" where
  "indexBytes m k = (case m k of None \<Rightarrow> NilSlice | Some b \<Rightarrow> b)"

definition indexPerms :: "kvPerms \<Rightarrow> string \<Rightarrow> 8 word" where
  "indexPerms m k = (case m k of None \<Rightarrow> 0 | Some p \<Rightarrow> p)"

definition indexBool :: "kvBool \<Rightarrow> string \<Rightarrow> bool" where
  "indexBool m k = (case m k of None \<Rightarrow> False | Some b \<Rightarrow> b)"

text \<open>
  The store. Its documents are slices, not copies of bytes. The mutex field is left out:
  the model is sequential, every method runs from its Lock to its Unlock without
  interleaving.
\<close>

record MemDataStore =
  storage :: storageType
  perms :: permsType
  nsAdmins :: "string \<rightharpoonup> kvBool"
  admins :: kvBool
  rootToken :: string

definition NewMemDataStore :: "string \<Rightarrow> MemDataStore" where
  "NewMemDataStore r =
     \<lparr>storage = Map.empty, perms = Map.empty, nsAdmins = Map.empty,
      admins = Map.empty, rootToken = r\<rparr>"

section \<open>Storage engine: the methods of MemDataStore\<close>

text \<open>
  A query returns Go's pair (value, error); a mutating method returns its error and the
  store after the call. Only \<^verbatim>\<open>Append\<close> reads and writes the memory: it is given
  the memory with the store and returns both.
\<close>

type_synonym world = "memory \<times> MemDataStore"

definition IsRoot :: "MemDataStore \<Rightarrow> string \<Rightarrow> bool \<times> error option" where
  "IsRoot ds token = (rootToken ds = token, None)"

definition SetNamespaceAdmin ::
  "MemDataStore \<Rightarrow> string \<Rightarrow> string \<Rightarrow> bool \<Rightarrow> error option \<times> MemDataStore" where
  "SetNamespaceAdmin ds token ns is =
     (case nsAdmins ds ns of
        None \<Rightarrow>
          (if \<not> is then (None, ds)
           else (None, ds\<lparr>nsAdmins := (nsAdmins ds)(ns \<mapsto> Map.empty(token \<mapsto> True))\<rparr>))
      | Some nsV \<Rightarrow>
          (if is then (None, ds\<lparr>nsAdmins := (nsAdmins ds)(ns \<mapsto> nsV(token \<mapsto> True))\<rparr>)
           else (None, ds\<lparr>nsAdmins := (nsAdmins ds)(ns \<mapsto> nsV(token := None))\<rparr>)))"

definition SetAdmin :: "MemDataStore \<Rightarrow> string \<Rightarrow> bool \<Rightarrow> error option \<times> MemDataStore" where
  "SetAdmin ds token is =
     (if is then (None, ds\<lparr>admins := (admins ds)(token \<mapsto> True)\<rparr>)
      else (None, ds\<lparr>admins := (admins ds)(token := None)\<rparr>))"

definition IsAdmin :: "MemDataStore \<Rightarrow> string \<Rightarrow> bool \<times> error option" where
  "IsAdmin ds token =
     (let exists = indexBool (admins ds) token
      in if exists then (True, None) else (False, None))"

definition IsNamespaceAdmin :: "MemDataStore \<Rightarrow> string \<Rightarrow> string \<Rightarrow> bool \<times> error option" where
  "IsNamespaceAdmin ds token ns =
     (case nsAdmins ds ns of
        None \<Rightarrow> (False, None)
      | Some nsV \<Rightarrow>
          (let exists = indexBool nsV token
           in if exists then (True, None) else (False, None)))"

definition SetToken ::
  "MemDataStore \<Rightarrow> string \<Rightarrow> string \<Rightarrow> string \<Rightarrow> bool \<Rightarrow> bool \<Rightarrow> bool
     \<Rightarrow> error option \<times> MemDataStore" where
  "SetToken ds token ns doc get put app =
     (let nsV = (case perms ds ns of None \<Rightarrow> Map.empty | Some m \<Rightarrow> m);
          docV = (case nsV doc of None \<Rightarrow> Map.empty | Some m \<Rightarrow> m);
          docV' =
            (if get = False \<and> put = False \<and> app = False then docV(token := None)
             else
               (let curPerms = indexPerms docV token;
                    curPerms1 = (if get then curPerms OR permGet else curPerms AND NOT permGet);
                    curPerms2 = (if put then curPerms1 OR permPut else curPerms1 AND NOT permPut);
                    curPerms3 =
                      (if app then curPerms2 OR permAppend else curPerms2 AND NOT permAppend)
                in docV(token \<mapsto> curPerms3)))
      in (None, ds\<lparr>perms := (perms ds)(ns \<mapsto> nsV(doc \<mapsto> docV'))\<rparr>))"

definition CanGet :: "MemDataStore \<Rightarrow> string \<Rightarrow> string \<Rightarrow> string \<Rightarrow> bool \<times> error option" where
  "CanGet ds token ns doc =
     (case perms ds ns of
        None \<Rightarrow> (False, None)
      | Some nsV \<Rightarrow>
          (case nsV doc of
             None \<Rightarrow> (False, None)
           | Some docV \<Rightarrow>
               (let tokenPerms = indexPerms docV token
                in if tokenPerms AND permGet = permGet then (True, None) else (False, None))))"

definition CanPut :: "MemDataStore \<Rightarrow> string \<Rightarrow> string \<Rightarrow> string \<Rightarrow> bool \<times> error option" where
  "CanPut ds token ns doc =
     (case perms ds ns of
        None \<Rightarrow> (False, None)
      | Some nsV \<Rightarrow>
          (case nsV doc of
             None \<Rightarrow> (False, None)
           | Some docV \<Rightarrow>
               (let tokenPerms = indexPerms docV token
                in if tokenPerms AND permPut = permPut then (True, None) else (False, None))))"

definition CanAppend :: "MemDataStore \<Rightarrow> string \<Rightarrow> string \<Rightarrow> string \<Rightarrow> bool \<times> error option" where
  "CanAppend ds token ns doc =
     (case perms ds ns of
        None \<Rightarrow> (False, None)
      | Some nsV \<Rightarrow>
          (case nsV doc of
             None \<Rightarrow> (False, None)
           | Some docV \<Rightarrow>
               (let tokenPerms = indexPerms docV token
                in if tokenPerms AND permAppend = permAppend then (True, None)
                   else (False, None))))"

fun Append ::
  "(nat \<Rightarrow> nat \<Rightarrow> nat) \<Rightarrow> world \<Rightarrow> string \<Rightarrow> string \<Rightarrow> slice \<Rightarrow> slice
     \<Rightarrow> error option \<times> world" where
  "Append growcap (m, ds) ns doc delim v =
     (let nsV = (case storage ds ns of None \<Rightarrow> Map.empty | Some x \<Rightarrow> x);
          (m1, s1) = go_append growcap m (indexBytes nsV doc) delim;
          nsV1 = nsV(doc \<mapsto> s1);
          (m2, s2) = go_append growcap m1 (indexBytes nsV1 doc) v;
          nsV2 = nsV1(doc \<mapsto> s2)
      in (None, (m2, ds\<lparr>storage := (storage ds)(ns \<mapsto> nsV2)\<rparr>)))"

text \<open>\<^verbatim>\<open>Put\<close> stores the slice it is given, not a copy of its bytes.\<close>

definition Put :: "MemDataStore \<Rightarrow> string \<Rightarrow> string \<Rightarrow> slice \<Rightarrow> error option \<times> MemDataStore" where
  "Put ds ns doc v =
     (let nsV = (case storage ds ns of None \<Rightarrow> Map.empty | Some m \<Rightarrow> m)
      in (None, ds\<lparr>storage := (storage ds)(ns \<mapsto> nsV(doc \<mapsto> v))\<rparr>))"

text \<open>
  \<^verbatim>\<open>Get\<close> returns the stored slice itself, and the nil slice for an absent namespace
  and for a nil entry alike.
\<close>

definition Get :: "MemDataStore \<Rightarrow> string \<Rightarrow> string \<Rightarrow> slice \<times> error option" where
  "Get ds ns doc =
     (case storage ds ns of
        None \<Rightarrow> (NilSlice, None)
      | Some nsV \<Rightarrow>
          (let docV = indexBytes nsV doc
           in if docV = NilSlice then (NilSlice, None) else (docV, None)))"

section \<open>The DataStore interface and the authorization gate\<close>

text \<open>
  The \<^verbatim>\<open>Checked*\<close> functions take any implementation of the interface
  \<^verbatim>\<open>DataStore\<close>. An implementation is a table of methods over its own state \<open>'s\<close>;
  every method receives the state and returns its Go results with the state it leaves.
\<close>

record 's DataStore =
  ds_Get :: "'s \<Rightarrow> string \<Rightarrow> string \<Rightarrow> (slice \<times> error option) \<times> 's"
  ds_Put :: "'s \<Rightarrow> string \<Rightarrow> string \<Rightarrow> slice \<Rightarrow> error option \<times> 's"
  ds_Append :: "'s \<Rightarrow> string \<Rightarrow> string \<Rightarrow> slice \<Rightarrow> slice \<Rightarrow> error option \<times> 's"
  ds_CanGet :: "'s \<Rightarrow> string \<Rightarrow> string \<Rightarrow> string \<Rightarrow> (bool \<times> error option) \<times> 's"
  ds_CanPut :: "'s \<Rightarrow> string \<Rightarrow> string \<Rightarrow> string \<Rightarrow> (bool \<times> error option) \<times> 's"
  ds_CanAppend :: "'s \<Rightarrow> string \<Rightarrow> string \<Rightarrow> string \<Rightarrow> (bool \<times> error option) \<times> 's"
  ds_SetToken ::
    "'s \<Rightarrow> string \<Rightarrow> string \<Rightarrow> string \<Rightarrow> bool \<Rightarrow> bool \<Rightarrow> bool \<Rightarrow> error option \<times> 's"
  ds_IsNamespaceAdmin :: "'s \<Rightarrow> string \<Rightarrow> string \<Rightarrow> (bool \<times> error option) \<times> 's"
  ds_IsAdmin :: "'s \<Rightarrow> string \<Rightarrow> (bool \<times> error option) \<times> 's"
  ds_SetNamespaceAdmin :: "'s \<Rightarrow> string \<Rightarrow> string \<Rightarrow> bool \<Rightarrow> error option \<times> 's"
  ds_SetAdmin :: "'s \<Rightarrow> string \<Rightarrow> bool \<Rightarrow> error option \<times> 's"
  ds_IsRoot :: "'s \<Rightarrow> string \<Rightarrow> (bool \<times> error option) \<times> 's"

text \<open>
  MemDataStore as an implementation; its state is the memory and the store. A query
  writes neither; a mutating method other than \<^verbatim>\<open>Append\<close> writes fields of the store
  only.
\<close>

definition query :: "(MemDataStore \<Rightarrow> 'a) \<Rightarrow> world \<Rightarrow> 'a \<times> world" where
  "query f w = (f (snd w), w)"

definition onStore :: "(MemDataStore \<Rightarrow> 'a \<times> MemDataStore) \<Rightarrow> world \<Rightarrow> 'a \<times> world" where
  "onStore f w = (fst (f (snd w)), (fst w, snd (f (snd w))))"

definition memDS :: "(nat \<Rightarrow> nat \<Rightarrow> nat) \<Rightarrow> world DataStore" where
  "memDS growcap =
     \<lparr>ds_Get = (\<lambda>w ns doc. query (\<lambda>ds. Get ds ns doc) w),
      ds_Put = (\<lambda>w ns doc v. onStore (\<lambda>ds. Put ds ns doc v) w),
      ds_Append = Append growcap,
      ds_CanGet = (\<lambda>w token ns doc. query (\<lambda>ds. CanGet ds token ns doc) w),
      ds_CanPut = (\<lambda>w token ns doc. query (\<lambda>ds. CanPut ds token ns doc) w),
      ds_CanAppend = (\<lambda>w token ns doc. query (\<lambda>ds. CanAppend ds token ns doc) w),
      ds_SetToken =
        (\<lambda>w token ns doc get put app. onStore (\<lambda>ds. SetToken ds token ns doc get put app) w),
      ds_IsNamespaceAdmin = (\<lambda>w token ns. query (\<lambda>ds. IsNamespaceAdmin ds token ns) w),
      ds_IsAdmin = (\<lambda>w token. query (\<lambda>ds. IsAdmin ds token) w),
      ds_SetNamespaceAdmin =
        (\<lambda>w token ns is. onStore (\<lambda>ds. SetNamespaceAdmin ds token ns is) w),
      ds_SetAdmin = (\<lambda>w token is. onStore (\<lambda>ds. SetAdmin ds token is) w),
      ds_IsRoot = (\<lambda>w token. query (\<lambda>ds. IsRoot ds token) w)\<rparr>"

definition CheckedSetAdmin ::
  "'s DataStore \<Rightarrow> 's \<Rightarrow> string \<Rightarrow> string \<Rightarrow> bool \<Rightarrow> error option \<times> 's" where
  "CheckedSetAdmin D s clientToken token is =
     (case ds_IsRoot D s clientToken of
        ((ok, err), s1) \<Rightarrow>
          if err \<noteq> None then (err, s1)
          else if \<not> ok then (Some ErrAccessDenied, s1)
          else ds_SetAdmin D s1 token is)"

definition CheckedSetNamespaceAdmin ::
  "'s DataStore \<Rightarrow> 's \<Rightarrow> string \<Rightarrow> string \<Rightarrow> string \<Rightarrow> bool \<Rightarrow> error option \<times> 's" where
  "CheckedSetNamespaceAdmin D s clientToken token ns is =
     (case ds_IsAdmin D s clientToken of
        ((ok, err), s1) \<Rightarrow>
          if err \<noteq> None then (err, s1)
          else if \<not> ok then (Some ErrAccessDenied, s1)
          else ds_SetNamespaceAdmin D s1 token ns is)"

definition CheckedSetToken ::
  "'s DataStore \<Rightarrow> 's \<Rightarrow> string \<Rightarrow> string \<Rightarrow> string \<Rightarrow> string \<Rightarrow> bool \<Rightarrow> bool \<Rightarrow> bool
     \<Rightarrow> error option \<times> 's" where
  "CheckedSetToken D s clientToken token ns doc get put app =
     (case ds_IsNamespaceAdmin D s clientToken ns of
        ((ok, err), s1) \<Rightarrow>
          if err \<noteq> None then (err, s1)
          else if \<not> ok then (Some ErrAccessDenied, s1)
          else ds_SetToken D s1 token ns doc get put app)"

definition CheckedGet ::
  "'s DataStore \<Rightarrow> 's \<Rightarrow> string \<Rightarrow> string \<Rightarrow> string \<Rightarrow> (slice \<times> error option) \<times> 's" where
  "CheckedGet D s clientToken ns doc =
     (case ds_CanGet D s clientToken ns doc of
        ((ok, err), s1) \<Rightarrow>
          if err \<noteq> None then ((NilSlice, err), s1)
          else if \<not> ok then ((NilSlice, Some ErrAccessDenied), s1)
          else ds_Get D s1 ns doc)"

definition CheckedPut ::
  "'s DataStore \<Rightarrow> 's \<Rightarrow> string \<Rightarrow> string \<Rightarrow> string \<Rightarrow> slice \<Rightarrow> error option \<times> 's" where
  "CheckedPut D s clientToken ns doc v =
     (case ds_CanPut D s clientToken ns doc of
        ((ok, err), s1) \<Rightarrow>
          if err \<noteq> None then (err, s1)
          else if \<not> ok then (Some ErrAccessDenied, s1)
          else ds_Put D s1 ns doc v)"

definition CheckedAppend ::
  "'s DataStore \<Rightarrow> 's \<Rightarrow> string \<Rightarrow> string \<Rightarrow> string \<Rightarrow> slice \<Rightarrow> slice \<Rightarrow> error option \<times> 's" where
  "CheckedAppend D s clientToken ns doc delim v =
     (case ds_CanAppend D s clientToken ns doc of
        ((ok, err), s1) \<Rightarrow>
          if err \<noteq> None then (err, s1)
          else if \<not> ok then (Some ErrAccessDenied, s1)
          else ds_Append D s1 ns doc delim v)"

section \<open>The set-permission request handler (api.go)\<close>

text \<open>
  \<^verbatim>\<open>setTokenRequest\<close> is the decoded JSON body; its fields \<^verbatim>\<open>Token\<close>, \<^verbatim>\<open>Put\<close>,
  \<^verbatim>\<open>Get\<close>, \<^verbatim>\<open>Append\<close> carry the prefix \<open>req_\<close> here. The handler is modelled from
  the decoded request on: reading the body and decoding it are left to the caller, the
  token the string generator would produce is the parameter \<open>generated\<close>, and the
  response is the HTTP error status or the JSON-encoded request.
\<close>

record setTokenRequest =
  req_Token :: string
  req_Put :: bool
  req_Get :: bool
  req_Append :: bool

datatype response = HttpError nat | ReturnJSON setTokenRequest

definition checkErr :: "error option \<Rightarrow> nat option" where
  "checkErr err =
     (if err = Some ErrAccessDenied then Some 403
      else if err \<noteq> None then Some 500
      else None)"

definition setToken ::
  "'s DataStore \<Rightarrow> string \<Rightarrow> 's \<Rightarrow> string \<Rightarrow> string \<Rightarrow> string \<Rightarrow> setTokenRequest
     \<Rightarrow> response \<times> 's" where
  "setToken D generated s clientToken ns doc str =
     (let str1 = (if req_Token str = [] then str\<lparr>req_Token := generated\<rparr> else str)
      in case CheckedSetToken D s clientToken (req_Token str1) ns doc
                (req_Put str1) (req_Get str1) (req_Append str1) of
           (err, s1) \<Rightarrow>
             (case checkErr err of
                Some status \<Rightarrow> (HttpError status, s1)
              | None \<Rightarrow> (ReturnJSON str1, s1)))"

section \<open>Sequences of calls on a store\<close>

text \<open>
  A call is one invocation of a method of the store or of a checked operation on it;
  \<open>exec\<close> gives the memory and the store after the call and \<open>run\<close> after a sequence.
\<close>

datatype call =
    Call_Get string string
  | Call_Put string string slice
  | Call_Append string string slice slice
  | Call_CanGet string string string
  | Call_CanPut string string string
  | Call_CanAppend string string string
  | Call_SetToken string string string bool bool bool
  | Call_IsNamespaceAdmin string string
  | Call_IsAdmin string
  | Call_SetNamespaceAdmin string string bool
  | Call_SetAdmin string bool
  | Call_IsRoot string
  | Call_CheckedSetAdmin string string bool
  | Call_CheckedSetNamespaceAdmin string string string bool
  | Call_CheckedSetToken string string string string bool bool bool
  | Call_CheckedGet string string string
  | Call_CheckedPut string string string slice
  | Call_CheckedAppend string string string slice slice

fun exec :: "(nat \<Rightarrow> nat \<Rightarrow> nat) \<Rightarrow> world \<Rightarrow> call \<Rightarrow> world" where
  "exec g w (Call_Get ns doc) = snd (ds_Get (memDS g) w ns doc)"
| "exec g w (Call_Put ns doc v) = snd (ds_Put (memDS g) w ns doc v)"
| "exec g w (Call_Append ns doc delim v) = snd (ds_Append (memDS g) w ns doc delim v)"
| "exec g w (Call_CanGet token ns doc) = snd (ds_CanGet (memDS g) w token ns doc)"
| "exec g w (Call_CanPut token ns doc) = snd (ds_CanPut (memDS g) w token ns doc)"
| "exec g w (Call_CanAppend token ns doc) = snd (ds_CanAppend (memDS g) w token ns doc)"
| "exec g w (Call_SetToken token ns doc get put app) =
     snd (ds_SetToken (memDS g) w token ns doc get put app)"
| "exec g w (Call_IsNamespaceAdmin token ns) = snd (ds_IsNamespaceAdmin (memDS g) w token ns)"
| "exec g w (Call_IsAdmin token) = snd (ds_IsAdmin (memDS g) w token)"
| "exec g w (Call_SetNamespaceAdmin token ns is) =
     snd (ds_SetNamespaceAdmin (memDS g) w token ns is)"
| "exec g w (Call_SetAdmin token is) = snd (ds_SetAdmin (memDS g) w token is)"
| "exec g w (Call_IsRoot token) = snd (ds_IsRoot (memDS g) w token)"
| "exec g w (Call_CheckedSetAdmin clientToken token is) =
     snd (CheckedSetAdmin (memDS g) w clientToken token is)"
| "exec g w (Call_CheckedSetNamespaceAdmin clientToken token ns is) =
     snd (CheckedSetNamespaceAdmin (memDS g) w clientToken token ns is)"
| "exec g w (Call_CheckedSetToken clientToken token ns doc get put app) =
     snd (CheckedSetToken (memDS g) w clientToken token ns doc get put app)"
| "exec g w (Call_CheckedGet clientToken ns doc) =
     snd (CheckedGet (memDS g) w clientToken ns doc)"
| "exec g w (Call_CheckedPut clientToken ns doc v) =
     snd (CheckedPut (memDS g) w clientToken ns doc v)"
| "exec g w (Call_CheckedAppend clientToken ns doc delim v) =
     snd (CheckedAppend (memDS g) w clientToken ns doc delim v)"

fun run :: "(nat \<Rightarrow> nat \<Rightarrow> nat) \<Rightarrow> world \<Rightarrow> call list \<Rightarrow> world" where
  "run g w [] = w"
| "run g w (c # cs) = run g (exec g w c) cs"

text \<open>
  Whether a call, made on the store \<open>ds\<close>, stores \<open>token\<close> in one of the three tables:
  a set-call with a granting flag, for a checked call when its gate lets it through.
\<close>

fun storesToken :: "MemDataStore \<Rightarrow> call \<Rightarrow> string \<Rightarrow> bool" where
  "storesToken ds (Call_SetAdmin token' is) token = (token' = token \<and> is)"
| "storesToken ds (Call_SetNamespaceAdmin token' ns is) token = (token' = token \<and> is)"
| "storesToken ds (Call_SetToken token' ns doc get put app) token =
     (token' = token \<and> (get \<or> put \<or> app))"
| "storesToken ds (Call_CheckedSetAdmin clientToken token' is) token =
     (fst (IsRoot ds clientToken) \<and> token' = token \<and> is)"
| "storesToken ds (Call_CheckedSetNamespaceAdmin clientToken token' ns is) token =
     (fst (IsAdmin ds clientToken) \<and> token' = token \<and> is)"
| "storesToken ds (Call_CheckedSetToken clientToken token' ns doc get put app) token =
     (fst (IsNamespaceAdmin ds clientToken ns) \<and> token' = token \<and> (get \<or> put \<or> app))"
| "storesToken ds _ token = False"

fun neverStores ::
  "(nat \<Rightarrow> nat \<Rightarrow> nat) \<Rightarrow> world \<Rightarrow> call list \<Rightarrow> string \<Rightarrow> bool" where
  "neverStores g w [] token = True"
| "neverStores g w (c # cs) token =
     (\<not> storesToken (snd w) c token \<and> neverStores g (exec g w c) cs token)"

text \<open>Whether a call, made on \<open>ds\<close>, grants \<open>token\<close> a capability on (\<open>ns\<close>, \<open>doc\<close>).\<close>

fun grants :: "MemDataStore \<Rightarrow> call \<Rightarrow> string \<Rightarrow> string \<Rightarrow> string \<Rightarrow> bool" where
  "grants ds (Call_SetToken token' ns' doc' get put app) token ns doc =
     (token' = token \<and> ns' = ns \<and> doc' = doc \<and> (get \<or> put \<or> app))"
| "grants ds (Call_CheckedSetToken clientToken token' ns' doc' get put app) token ns doc =
     (fst (IsNamespaceAdmin ds clientToken ns') \<and>
      token' = token \<and> ns' = ns \<and> doc' = doc \<and> (get \<or> put \<or> app))"
| "grants ds _ token ns doc = False"

fun neverGranted ::
  "(nat \<Rightarrow> nat \<Rightarrow> nat) \<Rightarrow> world \<Rightarrow> call list \<Rightarrow> string \<Rightarrow> string \<Rightarrow> string \<Rightarrow> bool" where
  "neverGranted g w [] token ns doc = True"
| "neverGranted g w (c # cs) token ns doc =
     (\<not> grants (snd w) c token ns doc \<and> neverGranted g (exec g w c) cs token ns doc)"

text \<open>Whether a call, made on \<open>ds\<close>, writes the document (\<open>ns\<close>, \<open>doc\<close>).\<close>

fun writes :: "MemDataStore \<Rightarrow> call \<Rightarrow> string \<Rightarrow> string \<Rightarrow> bool" where
  "writes ds (Call_Put ns' doc' v) ns doc = (ns' = ns \<and> doc' = doc)"
| "writes ds (Call_Append ns' doc' delim v) ns doc = (ns' = ns \<and> doc' = doc)"
| "writes ds (Call_CheckedPut clientToken ns' doc' v) ns doc =
     (fst (CanPut ds clientToken ns' doc') \<and> ns' = ns \<and> doc' = doc)"
| "writes ds (Call_CheckedAppend clientToken ns' doc' delim v) ns doc =
     (fst (CanAppend ds clientToken ns' doc') \<and> ns' = ns \<and> doc' = doc)"
| "writes ds _ ns doc = False"

fun neverWritten ::
  "(nat \<Rightarrow> nat \<Rightarrow> nat) \<Rightarrow> world \<Rightarrow> call list \<Rightarrow> string \<Rightarrow> string \<Rightarrow> bool" where
  "neverWritten g w [] ns doc = True"
| "neverWritten g w (c # cs) ns doc =
     (\<not> writes (snd w) c ns doc \<and> neverWritten g (exec g w c) cs ns doc)"

section \<open>Reading the tables\<close>

text \<open>Membership of the Admin Set, of a Namespace Admin Set, and presence of a
  Permission Record: the key is present in the map.\<close>

definition inAdminSet :: "MemDataStore \<Rightarrow> string \<Rightarrow> bool" where
  "inAdminSet ds token = (admins ds token \<noteq> None)"

definition inNamespaceAdminSet :: "MemDataStore \<Rightarrow> string \<Rightarrow> string \<Rightarrow> bool" where
  "inNamespaceAdminSet ds token ns =
     (case nsAdmins ds ns of None \<Rightarrow> False | Some nsV \<Rightarrow> nsV token \<noteq> None)"

definition hasPermissionRecord :: "MemDataStore \<Rightarrow> string \<Rightarrow> string \<Rightarrow> string \<Rightarrow> bool" where
  "hasPermissionRecord ds token ns doc =
     (case perms ds ns of
        None \<Rightarrow> False
      | Some nsV \<Rightarrow> (case nsV doc of None \<Rightarrow> False | Some docV \<Rightarrow> docV token \<noteq> None))"

text \<open>
  The pieces of \<^verbatim>\<open>SetToken\<close> by name, for the proofs: the namespace's and the document's
  permission maps as the method finds them (empty when absent), and the byte it stores.
\<close>

definition nsPerms :: "MemDataStore \<Rightarrow> string \<Rightarrow> (string \<rightharpoonup> kvPerms)" where
  "nsPerms ds ns = (case perms ds ns of None \<Rightarrow> Map.empty | Some m \<Rightarrow> m)"

definition docPerms :: "MemDataStore \<Rightarrow> string \<Rightarrow> string \<Rightarrow> kvPerms" where
  "docPerms ds ns doc = (case nsPerms ds ns doc of None \<Rightarrow> Map.empty | Some m \<Rightarrow> m)"

definition newPerms :: "bool \<Rightarrow> bool \<Rightarrow> bool \<Rightarrow> 8 word \<Rightarrow> 8 word" where
  "newPerms get put app curPerms =
     (let curPerms1 = (if get then curPerms OR permGet else curPerms AND NOT permGet);
          curPerms2 = (if put then curPerms1 OR permPut else curPerms1 AND NOT permPut)
      in if app then curPerms2 OR permAppend else curPerms2 AND NOT permAppend)"

text \<open>The slice \<^verbatim>\<open>Get\<close> finds for a document (the nil slice when there are none).\<close>

definition docSlice :: "MemDataStore \<Rightarrow> string \<Rightarrow> string \<Rightarrow> slice" where
  "docSlice ds ns doc =
     indexBytes (case storage ds ns of None \<Rightarrow> Map.empty | Some m \<Rightarrow> m) doc"

text \<open>A token is in none of the three tables.\<close>

definition tokenFree :: "MemDataStore \<Rightarrow> string \<Rightarrow> bool" where
  "tokenFree ds token =
     (\<not> inAdminSet ds token \<and> (\<forall>ns. \<not> inNamespaceAdminSet ds token ns) \<and>
      (\<forall>ns doc. \<not> hasPermissionRecord ds token ns doc))"

section \<open>Unfolding rules\<close>

lemmas mem_defs =
  memDS_def query_def onStore_def
  IsRoot_def IsAdmin_def IsNamespaceAdmin_def CanGet_def CanPut_def CanAppend_def
  SetAdmin_def SetNamespaceAdmin_def SetToken_def Put_def Get_def
  NewMemDataStore_def indexBool_def indexPerms_def indexBytes_def
  permGet_def permPut_def permAppend_def

lemmas checked_defs =
  CheckedSetAdmin_def CheckedSetNamespaceAdmin_def CheckedSetToken_def
  CheckedGet_def CheckedPut_def CheckedAppend_def

lemmas seq_defs = mem_defs checked_defs Let_def

lemmas append_defs = go_append_def copy_at_def array_def

section \<open>Slices and append\<close>






lemma go_append_nil_iff:
  "(snd (go_append g m s t) = NilSlice) = (s = NilSlice \<and> bytes_of m t = [])"
  by (cases s) (auto simp: go_append_def Let_def)

lemma go_append_nil_nothing: "bytes_of m t = [] \<Longrightarrow> go_append g m NilSlice t = (m, NilSlice)"
  by (simp add: go_append_def)

section \<open>Documents\<close>

lemma Get_docSlice: "Get ds ns doc = (docSlice ds ns doc, None)"
  by (simp add: Get_def docSlice_def indexBytes_def Let_def split: option.splits)

lemma docSlice_New: "docSlice (NewMemDataStore r) ns doc = NilSlice"
  by (simp add: docSlice_def NewMemDataStore_def indexBytes_def)

lemma docSlice_Put:
  "docSlice (snd (Put ds ns' doc' v)) ns doc =
     (if ns' = ns \<and> doc' = doc then v else docSlice ds ns doc)"
  by (simp add: Put_def docSlice_def indexBytes_def Let_def)

lemma Append_steps:
  assumes "go_append g m (docSlice ds ns doc) delim = (m1, s1)"
    and "go_append g m1 s1 v = (m2, s2)"
  shows "Append g (m, ds) ns doc delim v =
           (None, (m2, ds\<lparr>storage := (storage ds)(ns \<mapsto>
              (case storage ds ns of None \<Rightarrow> Map.empty | Some x \<Rightarrow> x)(doc \<mapsto> s2))\<rparr>))"
  using assms by (simp add: docSlice_def indexBytes_def Let_def)

lemma Append_no_error: "fst (Append g w ns doc delim v) = None"
  by (cases w) (simp add: Let_def split: prod.splits)

declare Append.simps [simp del]

lemma docSlice_Append:
  assumes "go_append g m (docSlice ds ns' doc') delim = (m1, s1)"
    and "go_append g m1 s1 v = (m2, s2)"
  shows "docSlice (snd (snd (Append g (m, ds) ns' doc' delim v))) ns doc =
           (if ns' = ns \<and> doc' = doc then s2 else docSlice ds ns doc)"
    and "fst (snd (Append g (m, ds) ns' doc' delim v)) = m2"
  by (simp_all add: Append_steps [OF assms] docSlice_def indexBytes_def)

lemma docSlice_Append_other:
  "\<not> (ns' = ns \<and> doc' = doc) \<Longrightarrow>
   docSlice (snd (snd (Append g (m, ds) ns' doc' delim v))) ns doc = docSlice ds ns doc"
proof -
  assume n: "\<not> (ns' = ns \<and> doc' = doc)"
  obtain m1 s1 where 1: "go_append g m (docSlice ds ns' doc') delim = (m1, s1)"
    by (cases "go_append g m (docSlice ds ns' doc') delim")
  obtain m2 s2 where 2: "go_append g m1 s1 v = (m2, s2)"
    by (cases "go_append g m1 s1 v")
  from n docSlice_Append(1) [OF 1 2, of ns doc] show ?thesis by auto
qed




section \<open>Append in place\<close>

lemma Append_nil_iff:
  "(docSlice (snd (snd (Append g (m, ds) ns doc delim v))) ns doc = NilSlice) =
     (docSlice ds ns doc = NilSlice \<and> bytes_of m delim = [] \<and> bytes_of m v = [])"
proof -
  obtain m1 s1 where 1: "go_append g m (docSlice ds ns doc) delim = (m1, s1)"
    by (cases "go_append g m (docSlice ds ns doc) delim")
  obtain m2 s2 where 2: "go_append g m1 s1 v = (m2, s2)"
    by (cases "go_append g m1 s1 v")
  have a: "(s1 = NilSlice) = (docSlice ds ns doc = NilSlice \<and> bytes_of m delim = [])"
    using go_append_nil_iff [of g m "docSlice ds ns doc" delim] by (simp add: 1)
  have b: "(s2 = NilSlice) = (s1 = NilSlice \<and> bytes_of m1 v = [])"
    using go_append_nil_iff [of g m1 s1 v] by (simp add: 2)
  have c: "m1 = m" if "docSlice ds ns doc = NilSlice" "bytes_of m delim = []"
    using that 1 by (simp add: go_append_nil_nothing)
  from a b c show ?thesis
    by (auto simp: docSlice_Append [OF 1 2])
qed




section \<open>The hierarchy scenario\<close>

text \<open>
  C6. With root token \<open>R\<close>: \<^verbatim>\<open>CheckedSetAdmin\<close> by \<open>R\<close> for \<open>A\<close> succeeds, then
  \<^verbatim>\<open>CheckedSetNamespaceAdmin\<close> by \<open>A\<close> for \<open>N\<close> on \<open>ns1\<close> succeeds, then
  \<^verbatim>\<open>CheckedSetToken\<close> by \<open>N\<close> for \<open>T\<close> on \<open>ns1\<close>/\<open>doc1\<close> with get and put succeeds,
  then \<^verbatim>\<open>CheckedPut\<close> of \<open>hi\<close> by \<open>T\<close> succeeds, \<^verbatim>\<open>CheckedGet\<close> by \<open>T\<close> returns the
  slice put, which shows \<open>hi\<close>, and \<^verbatim>\<open>CheckedAppend\<close> by \<open>T\<close> fails with
  \<^verbatim>\<open>ErrAccessDenied\<close>, leaving memory and store as they were.
\<close>

theorem hierarchy_scenario:
  "(let m0 = [''hi'', [CHR 0x0A], ''x''];
        hi = Slice 0 0 2 2;
        s0 = (m0, NewMemDataStore ''R'');
        (e1, s1) = CheckedSetAdmin (memDS g) s0 ''R'' ''A'' True;
        (e2, s2) = CheckedSetNamespaceAdmin (memDS g) s1 ''A'' ''N'' ''ns1'' True;
        (e3, s3) = CheckedSetToken (memDS g) s2 ''N'' ''T'' ''ns1'' ''doc1'' True True False;
        (e4, s4) = CheckedPut (memDS g) s3 ''T'' ''ns1'' ''doc1'' hi;
        (r5, s5) = CheckedGet (memDS g) s4 ''T'' ''ns1'' ''doc1'';
        (e6, s6) = CheckedAppend (memDS g) s5 ''T'' ''ns1'' ''doc1'' (Slice 1 0 1 1) (Slice 2 0 1 1)
    in e1 = None \<and> e2 = None \<and> e3 = None \<and> e4 = None \<and> r5 = (hi, None) \<and>
       bytes_of (fst s5) (fst r5) = ''hi'' \<and>
       e6 = Some ErrAccessDenied \<and> s6 = s4)"
  by (simp add: mem_defs checked_defs Let_def array_def)

section \<open>The root token at the gate\<close>

text \<open>
  C1, as the claim states it, fails: on a new store with root token \<open>R\<close>,
  \<^verbatim>\<open>CheckedGet\<close> called with the root token is denied.
\<close>

theorem root_CheckedGet_denied:
  "rootToken (NewMemDataStore ''R'') = ''R'' \<and>
   snd (fst (CheckedGet (memDS (\<lambda>c n. n)) ([], NewMemDataStore ''R'') ''R'' ''ns'' ''doc''))
     = Some ErrAccessDenied"
  by (simp add: mem_defs checked_defs Let_def)

text \<open>
  C1, amended. \<^verbatim>\<open>CheckedSetAdmin\<close> called with the root token is never denied: it is
  \<^verbatim>\<open>SetAdmin\<close>, which returns no error, whatever the tables hold. Each of the other
  five checked operations treats the root token as any other token: called with it, the
  operation fails with \<^verbatim>\<open>ErrAccessDenied\<close> exactly when its own predicate
  (\<^verbatim>\<open>IsAdmin\<close>, \<^verbatim>\<open>IsNamespaceAdmin\<close>, \<^verbatim>\<open>CanGet\<close>, \<^verbatim>\<open>CanPut\<close>, \<^verbatim>\<open>CanAppend\<close>)
  is false for the root token.
\<close>

theorem root_token_at_gate:
  "CheckedSetAdmin (memDS g) (m, ds) (rootToken ds) token is
     = (fst (SetAdmin ds token is), (m, snd (SetAdmin ds token is))) \<and>
   fst (SetAdmin ds token is) = None \<and>
   (fst (CheckedSetNamespaceAdmin (memDS g) (m, ds) (rootToken ds) token ns is)
        = Some ErrAccessDenied)
      = (\<not> fst (IsAdmin ds (rootToken ds))) \<and>
   (fst (CheckedSetToken (memDS g) (m, ds) (rootToken ds) token ns doc get put app)
        = Some ErrAccessDenied)
      = (\<not> fst (IsNamespaceAdmin ds (rootToken ds) ns)) \<and>
   (snd (fst (CheckedGet (memDS g) (m, ds) (rootToken ds) ns doc)) = Some ErrAccessDenied)
      = (\<not> fst (CanGet ds (rootToken ds) ns doc)) \<and>
   (fst (CheckedPut (memDS g) (m, ds) (rootToken ds) ns doc v) = Some ErrAccessDenied)
      = (\<not> fst (CanPut ds (rootToken ds) ns doc)) \<and>
   (fst (CheckedAppend (memDS g) (m, ds) (rootToken ds) ns doc delim v) = Some ErrAccessDenied)
      = (\<not> fst (CanAppend ds (rootToken ds) ns doc))"
  by (simp add: mem_defs checked_defs Let_def Append_no_error split: option.splits)

section \<open>Permission bits\<close>

lemma and_exp_test: "(x AND 2 ^ k = 2 ^ k) = bit x k" if "k < 8" for x :: "8 word"
proof
  assume "x AND 2 ^ k = 2 ^ k"
  then have "bit (x AND 2 ^ k) k = bit (2 ^ k :: 8 word) k" by simp
  then show "bit x k" using that by (simp add: bit_simps)
next
  assume b: "bit x k"
  show "x AND 2 ^ k = 2 ^ k"
    by (rule bit_word_eqI) (use b in \<open>auto simp: bit_simps\<close>)
qed

lemma bit_set_exp: "bit (x OR 2 ^ k) n = (bit x n \<or> (n = k \<and> k < 8))" for x :: "8 word"
  by (auto simp: bit_simps)

lemma bit_clear_exp: "bit (x AND NOT (2 ^ k)) n = (bit x n \<and> n \<noteq> k)" for x :: "8 word"
  by (auto simp: bit_simps dest: bit_imp_le_length)

lemma perm_exp: "permGet = 2 ^ 0" "permPut = 2 ^ 1" "permAppend = 2 ^ 2"
  by (simp_all add: permGet_def permPut_def permAppend_def)

lemma newPerms_bit:
  "bit (newPerms get put app x) n =
     (if n = 0 then get else if n = 1 then put else if n = 2 then app else bit x n)"
  unfolding newPerms_def Let_def perm_exp
  by (simp only: bit_set_exp bit_clear_exp if_distrib [of "\<lambda>w. bit w n"] split: if_splits) auto

lemma newPerms_bits:
  "(newPerms get put app x AND permGet = permGet) = get"
  "(newPerms get put app x AND permPut = permPut) = put"
  "(newPerms get put app x AND permAppend = permAppend) = app"
  unfolding perm_exp by (simp_all only: and_exp_test newPerms_bit) simp_all

lemma newPerms_twice: "newPerms get put app (newPerms get put app x) = newPerms get put app x"
  by (rule bit_word_eqI) (simp add: newPerms_bit)

lemma SetToken_alt:
  "SetToken ds token ns doc get put app =
     (None, ds\<lparr>perms := (perms ds)(ns \<mapsto> (nsPerms ds ns)(doc \<mapsto>
        (if \<not> get \<and> \<not> put \<and> \<not> app then (docPerms ds ns doc)(token := None)
         else (docPerms ds ns doc)(token \<mapsto>
                 newPerms get put app (indexPerms (docPerms ds ns doc) token)))))\<rparr>)"
  by (simp add: SetToken_def newPerms_def nsPerms_def docPerms_def Let_def)

section \<open>Idempotence of grants and revokes\<close>

lemma SetAdmin_twice:
  "SetAdmin (snd (SetAdmin ds token is)) token is = (None, snd (SetAdmin ds token is))"
  by (simp add: SetAdmin_def)

lemma SetNamespaceAdmin_twice:
  "SetNamespaceAdmin (snd (SetNamespaceAdmin ds token ns is)) token ns is
     = (None, snd (SetNamespaceAdmin ds token ns is))"
  by (simp add: SetNamespaceAdmin_def split: option.splits)

lemma SetToken_twice:
  "SetToken (snd (SetToken ds token ns doc get put app)) token ns doc get put app
     = (None, snd (SetToken ds token ns doc get put app))"
  by (simp add: SetToken_alt nsPerms_def docPerms_def indexPerms_def newPerms_twice)

lemma SetAdmin_absent: "\<not> inAdminSet ds token \<Longrightarrow> SetAdmin ds token False = (None, ds)"
  by (simp add: SetAdmin_def inAdminSet_def fun_upd_idem)

lemma SetNamespaceAdmin_absent:
  "\<not> inNamespaceAdminSet ds token ns \<Longrightarrow> SetNamespaceAdmin ds token ns False = (None, ds)"
  by (auto simp: SetNamespaceAdmin_def inNamespaceAdminSet_def fun_upd_idem
           split: option.splits)

text \<open>
  C9. Repeating an identical \<^verbatim>\<open>SetAdmin\<close>, \<^verbatim>\<open>SetNamespaceAdmin\<close> or \<^verbatim>\<open>SetToken\<close>
  call right after the first returns no error and leaves the store as the first call
  left it; and unsetting a token that is not in the Admin Set, or not in the namespace's
  admin set, returns no error and leaves the store unchanged.
\<close>

theorem grants_idempotent:
  "SetAdmin (snd (SetAdmin ds token is)) token is = (None, snd (SetAdmin ds token is)) \<and>
   SetNamespaceAdmin (snd (SetNamespaceAdmin ds token ns is)) token ns is
     = (None, snd (SetNamespaceAdmin ds token ns is)) \<and>
   SetToken (snd (SetToken ds token ns doc get put app)) token ns doc get put app
     = (None, snd (SetToken ds token ns doc get put app)) \<and>
   (\<not> inAdminSet ds token \<longrightarrow> SetAdmin ds token False = (None, ds)) \<and>
   (\<not> inNamespaceAdminSet ds token ns \<longrightarrow> SetNamespaceAdmin ds token ns False = (None, ds))"
  using SetAdmin_twice SetNamespaceAdmin_twice SetToken_twice SetAdmin_absent
    SetNamespaceAdmin_absent
  by blast

theorem grants_idempotent_witness:
  "(let ds = snd (SetNamespaceAdmin (NewMemDataStore ''R'') ''N'' ''ns1'' True)
    in \<not> inAdminSet ds ''A'' \<and> \<not> inNamespaceAdminSet ds ''A'' ''ns1'' \<and>
       inNamespaceAdminSet ds ''N'' ''ns1'' \<and>
       SetAdmin ds ''A'' False = (None, ds) \<and>
       SetNamespaceAdmin ds ''A'' ''ns1'' False = (None, ds) \<and>
       SetToken (snd (SetToken ds ''A'' ''ns1'' ''doc1'' True False True))
                ''A'' ''ns1'' ''doc1'' True False True
         = (None, snd (SetToken ds ''A'' ''ns1'' ''doc1'' True False True)))"
proof -
  define ds where "ds = snd (SetNamespaceAdmin (NewMemDataStore ''R'') ''N'' ''ns1'' True)"
  have a: "\<not> inAdminSet ds ''A''"
    by (simp add: ds_def inAdminSet_def SetNamespaceAdmin_def NewMemDataStore_def)
  have m: "\<not> inNamespaceAdminSet ds ''A'' ''ns1''"
    by (simp add: ds_def inNamespaceAdminSet_def SetNamespaceAdmin_def NewMemDataStore_def)
  have n: "inNamespaceAdminSet ds ''N'' ''ns1''"
    by (simp add: ds_def inNamespaceAdminSet_def SetNamespaceAdmin_def NewMemDataStore_def)
  from a m n
    grants_idempotent [where ds = ds and token = "''A''" and ns = "''ns1''" and doc = "''doc1''"
      and get = True and put = False and app = True]
  show ?thesis unfolding ds_def [symmetric] Let_def by simp
qed

section \<open>MemDataStore behind the interface\<close>

lemma memDS_predicates:
  "ds_IsRoot (memDS g) w c = ((fst (IsRoot (snd w) c), None), w)"
  "ds_IsAdmin (memDS g) w c = ((fst (IsAdmin (snd w) c), None), w)"
  "ds_IsNamespaceAdmin (memDS g) w c ns = ((fst (IsNamespaceAdmin (snd w) c ns), None), w)"
  "ds_CanGet (memDS g) w c ns doc = ((fst (CanGet (snd w) c ns doc), None), w)"
  "ds_CanPut (memDS g) w c ns doc = ((fst (CanPut (snd w) c ns doc), None), w)"
  "ds_CanAppend (memDS g) w c ns doc = ((fst (CanAppend (snd w) c ns doc), None), w)"
  by (simp_all add: memDS_def query_def IsRoot_def IsAdmin_def IsNamespaceAdmin_def CanGet_def
        CanPut_def CanAppend_def Let_def split: option.splits)

lemma memDS_methods:
  "ds_Get (memDS g) w ns doc = (Get (snd w) ns doc, w)"
  "ds_Put (memDS g) w ns doc v
     = (fst (Put (snd w) ns doc v), (fst w, snd (Put (snd w) ns doc v)))"
  "ds_Append (memDS g) = Append g"
  "ds_SetToken (memDS g) w token ns doc get put app
     = (fst (SetToken (snd w) token ns doc get put app),
        (fst w, snd (SetToken (snd w) token ns doc get put app)))"
  "ds_SetNamespaceAdmin (memDS g) w token ns is
     = (fst (SetNamespaceAdmin (snd w) token ns is),
        (fst w, snd (SetNamespaceAdmin (snd w) token ns is)))"
  "ds_SetAdmin (memDS g) w token is
     = (fst (SetAdmin (snd w) token is), (fst w, snd (SetAdmin (snd w) token is)))"
  by (simp_all add: memDS_def query_def onStore_def)

lemma Checked_mem:
  "CheckedSetAdmin (memDS g) w c token is =
     (if fst (IsRoot (snd w) c)
      then (fst (SetAdmin (snd w) token is), (fst w, snd (SetAdmin (snd w) token is)))
      else (Some ErrAccessDenied, w))"
  "CheckedSetNamespaceAdmin (memDS g) w c token ns is =
     (if fst (IsAdmin (snd w) c)
      then (fst (SetNamespaceAdmin (snd w) token ns is),
            (fst w, snd (SetNamespaceAdmin (snd w) token ns is)))
      else (Some ErrAccessDenied, w))"
  "CheckedSetToken (memDS g) w c token ns doc get put app =
     (if fst (IsNamespaceAdmin (snd w) c ns)
      then (fst (SetToken (snd w) token ns doc get put app),
            (fst w, snd (SetToken (snd w) token ns doc get put app)))
      else (Some ErrAccessDenied, w))"
  "CheckedGet (memDS g) w c ns doc =
     (if fst (CanGet (snd w) c ns doc) then (Get (snd w) ns doc, w)
      else ((NilSlice, Some ErrAccessDenied), w))"
  "CheckedPut (memDS g) w c ns doc v =
     (if fst (CanPut (snd w) c ns doc)
      then (fst (Put (snd w) ns doc v), (fst w, snd (Put (snd w) ns doc v)))
      else (Some ErrAccessDenied, w))"
  "CheckedAppend (memDS g) w c ns doc delim v =
     (if fst (CanAppend (snd w) c ns doc) then Append g w ns doc delim v
      else (Some ErrAccessDenied, w))"
  by (simp_all add: checked_defs memDS_predicates memDS_methods)

lemma Append_tables [simp]:
  "perms (snd (snd (Append g w ns doc delim v))) = perms (snd w)"
  "admins (snd (snd (Append g w ns doc delim v))) = admins (snd w)"
  "nsAdmins (snd (snd (Append g w ns doc delim v))) = nsAdmins (snd w)"
  "rootToken (snd (snd (Append g w ns doc delim v))) = rootToken (snd w)"
  by (cases w; simp add: Append.simps Let_def split: prod.splits)+

lemma storage_unchanged [simp]:
  "storage (snd (SetAdmin ds token is)) = storage ds"
  "storage (snd (SetNamespaceAdmin ds token ns is)) = storage ds"
  "storage (snd (SetToken ds token ns doc get put app)) = storage ds"
  by (simp_all add: SetAdmin_def SetNamespaceAdmin_def SetToken_def Let_def split: option.splits)

lemma docSlice_unchanged [simp]:
  "docSlice (snd (SetAdmin ds token is)) ns doc = docSlice ds ns doc"
  "docSlice (snd (SetNamespaceAdmin ds token ns' is)) ns doc = docSlice ds ns doc"
  "docSlice (snd (SetToken ds token ns' doc' get put app)) ns doc = docSlice ds ns doc"
  by (simp_all add: docSlice_def)

lemma docSlice_calls:
  "\<not> (ns' = ns \<and> doc' = doc) \<Longrightarrow>
   docSlice (snd (snd (ds_Put (memDS g) w ns' doc' v))) ns doc = docSlice (snd w) ns doc"
  "\<not> (ns' = ns \<and> doc' = doc) \<Longrightarrow>
   docSlice (snd (snd (Append g w ns' doc' delim v))) ns doc = docSlice (snd w) ns doc"
  "\<not> (fst (CanPut (snd w) c ns' doc') \<and> ns' = ns \<and> doc' = doc) \<Longrightarrow>
   docSlice (snd (snd (CheckedPut (memDS g) w c ns' doc' v))) ns doc = docSlice (snd w) ns doc"
  "\<not> (fst (CanAppend (snd w) c ns' doc') \<and> ns' = ns \<and> doc' = doc) \<Longrightarrow>
   docSlice (snd (snd (CheckedAppend (memDS g) w c ns' doc' delim v))) ns doc
     = docSlice (snd w) ns doc"
proof -
  show 1: "docSlice (snd (snd (ds_Put (memDS g) w ns' doc' v))) ns doc = docSlice (snd w) ns doc"
    if "\<not> (ns' = ns \<and> doc' = doc)"
    using that by (auto simp: memDS_methods docSlice_Put)
  show 2: "docSlice (snd (snd (Append g w ns' doc' delim v))) ns doc = docSlice (snd w) ns doc"
    if "\<not> (ns' = ns \<and> doc' = doc)"
    using that docSlice_Append_other [of ns' ns doc' doc g "fst w" "snd w" delim v] by simp
  show "docSlice (snd (snd (CheckedPut (memDS g) w c ns' doc' v))) ns doc = docSlice (snd w) ns doc"
    if "\<not> (fst (CanPut (snd w) c ns' doc') \<and> ns' = ns \<and> doc' = doc)"
  proof (cases "fst (CanPut (snd w) c ns' doc')")
    case True
    with that have "\<not> (ns' = ns \<and> doc' = doc)" by simp
    from 1 [OF this] True show ?thesis by (simp add: Checked_mem memDS_methods)
  next
    case False
    then show ?thesis by (simp add: Checked_mem)
  qed
  show "docSlice (snd (snd (CheckedAppend (memDS g) w c ns' doc' delim v))) ns doc
          = docSlice (snd w) ns doc"
    if "\<not> (fst (CanAppend (snd w) c ns' doc') \<and> ns' = ns \<and> doc' = doc)"
  proof (cases "fst (CanAppend (snd w) c ns' doc')")
    case True
    with that have "\<not> (ns' = ns \<and> doc' = doc)" by simp
    from 2 [OF this] True show ?thesis by (simp add: Checked_mem)
  next
    case False
    then show ?thesis by (simp add: Checked_mem)
  qed
qed

lemma docSlice_exec:
  "\<not> writes (snd w) c ns doc \<Longrightarrow> docSlice (snd (exec g w c)) ns doc = docSlice (snd w) ns doc"
proof (cases c)
  case (Call_Put ns' doc' v)
  then show "\<not> writes (snd w) c ns doc \<Longrightarrow> ?thesis" by (simp add: docSlice_calls(1))
next
  case (Call_Append ns' doc' delim v)
  then show "\<not> writes (snd w) c ns doc \<Longrightarrow> ?thesis"
    by (simp add: docSlice_calls(2) memDS_methods)
next
  case (Call_CheckedPut c' ns' doc' v)
  then show "\<not> writes (snd w) c ns doc \<Longrightarrow> ?thesis" by (simp add: docSlice_calls(3))
next
  case (Call_CheckedAppend c' ns' doc' delim v)
  then show "\<not> writes (snd w) c ns doc \<Longrightarrow> ?thesis" by (simp add: docSlice_calls(4))
qed (simp_all add: Checked_mem memDS_predicates memDS_methods)

lemma docSlice_run:
  "neverWritten g w cs ns doc \<Longrightarrow> docSlice (snd (run g w cs)) ns doc = docSlice (snd w) ns doc"
  by (induction cs arbitrary: w) (simp_all add: docSlice_exec)

lemma hasPermissionRecord_docPerms:
  "hasPermissionRecord ds token ns doc = (docPerms ds ns doc token \<noteq> None)"
  by (simp add: hasPermissionRecord_def docPerms_def nsPerms_def split: option.splits)

lemma Can_docPerms:
  "CanGet ds token ns doc = (indexPerms (docPerms ds ns doc) token AND permGet = permGet, None)"
  "CanPut ds token ns doc = (indexPerms (docPerms ds ns doc) token AND permPut = permPut, None)"
  "CanAppend ds token ns doc =
     (indexPerms (docPerms ds ns doc) token AND permAppend = permAppend, None)"
  by (simp_all add: CanGet_def CanPut_def CanAppend_def docPerms_def nsPerms_def indexPerms_def
        permGet_def permPut_def permAppend_def Let_def split: option.splits)

lemma docPerms_SetToken:
  "docPerms (snd (SetToken ds token' ns' doc' get put app)) ns doc =
     (if ns' = ns \<and> doc' = doc then
        (if \<not> get \<and> \<not> put \<and> \<not> app then (docPerms ds ns doc)(token' := None)
         else (docPerms ds ns doc)(token' \<mapsto>
                newPerms get put app (indexPerms (docPerms ds ns doc) token')))
      else docPerms ds ns doc)"
  by (simp add: SetToken_alt docPerms_def nsPerms_def)

lemma perms_unchanged [simp]:
  "perms (snd (SetAdmin ds token is)) = perms ds"
  "perms (snd (SetNamespaceAdmin ds token ns is)) = perms ds"
  "perms (snd (Put ds ns doc v)) = perms ds"
  by (simp_all add: SetAdmin_def SetNamespaceAdmin_def Put_def Let_def split: option.splits)

lemma docPerms_unchanged [simp]:
  "docPerms (snd (SetAdmin ds token is)) ns doc = docPerms ds ns doc"
  "docPerms (snd (SetNamespaceAdmin ds token ns' is)) ns doc = docPerms ds ns doc"
  "docPerms (snd (Put ds ns' doc' v)) ns doc = docPerms ds ns doc"
  "docPerms (snd (snd (Append g w ns' doc' delim v))) ns doc = docPerms (snd w) ns doc"
  by (simp_all add: docPerms_def nsPerms_def)

lemma norecord_exec:
  "\<not> grants (snd w) c token ns doc \<Longrightarrow> docPerms (snd w) ns doc token = None \<Longrightarrow>
   docPerms (snd (exec g w c)) ns doc token = None"
  by (cases c) (auto simp: Checked_mem memDS_predicates memDS_methods docPerms_SetToken)

lemma norecord_run:
  "neverGranted g w cs token ns doc \<Longrightarrow> docPerms (snd w) ns doc token = None \<Longrightarrow>
   docPerms (snd (run g w cs)) ns doc token = None"
  by (induction cs arbitrary: w) (simp_all add: norecord_exec)

lemma docPerms_New: "docPerms (NewMemDataStore r) ns doc = Map.empty"
  by (simp add: docPerms_def nsPerms_def NewMemDataStore_def)

lemma norecord_Can:
  "docPerms ds ns doc token = None \<Longrightarrow>
   CanGet ds token ns doc = (False, None) \<and> CanPut ds token ns doc = (False, None) \<and>
   CanAppend ds token ns doc = (False, None)"
  by (simp add: Can_docPerms indexPerms_def permGet_def permPut_def permAppend_def)

section \<open>Denial and errors at the gate\<close>

lemma CheckedSetAdmin_error:
  "ds_IsRoot D s c = ((ok, Some e), s1) \<Longrightarrow>
   CheckedSetAdmin (D\<lparr>ds_SetAdmin := f\<rparr>) s c token is = (Some e, s1)"
  by (simp add: CheckedSetAdmin_def)

lemma CheckedSetAdmin_denied:
  "ds_IsRoot D s c = ((False, None), s1) \<Longrightarrow>
   CheckedSetAdmin (D\<lparr>ds_SetAdmin := f\<rparr>) s c token is = (Some ErrAccessDenied, s1)"
  by (simp add: CheckedSetAdmin_def)

lemma CheckedSetNamespaceAdmin_error:
  "ds_IsAdmin D s c = ((ok, Some e), s1) \<Longrightarrow>
   CheckedSetNamespaceAdmin (D\<lparr>ds_SetNamespaceAdmin := f\<rparr>) s c token ns is = (Some e, s1)"
  by (simp add: CheckedSetNamespaceAdmin_def)

lemma CheckedSetNamespaceAdmin_denied:
  "ds_IsAdmin D s c = ((False, None), s1) \<Longrightarrow>
   CheckedSetNamespaceAdmin (D\<lparr>ds_SetNamespaceAdmin := f\<rparr>) s c token ns is
     = (Some ErrAccessDenied, s1)"
  by (simp add: CheckedSetNamespaceAdmin_def)

lemma CheckedSetToken_error:
  "ds_IsNamespaceAdmin D s c ns = ((ok, Some e), s1) \<Longrightarrow>
   CheckedSetToken (D\<lparr>ds_SetToken := f\<rparr>) s c token ns doc get put app = (Some e, s1)"
  by (simp add: CheckedSetToken_def)

lemma CheckedSetToken_denied:
  "ds_IsNamespaceAdmin D s c ns = ((False, None), s1) \<Longrightarrow>
   CheckedSetToken (D\<lparr>ds_SetToken := f\<rparr>) s c token ns doc get put app
     = (Some ErrAccessDenied, s1)"
  by (simp add: CheckedSetToken_def)

lemma CheckedGet_error:
  "ds_CanGet D s c ns doc = ((ok, Some e), s1) \<Longrightarrow>
   CheckedGet (D\<lparr>ds_Get := f\<rparr>) s c ns doc = ((NilSlice, Some e), s1)"
  by (simp add: CheckedGet_def)

lemma CheckedGet_denied:
  "ds_CanGet D s c ns doc = ((False, None), s1) \<Longrightarrow>
   CheckedGet (D\<lparr>ds_Get := f\<rparr>) s c ns doc = ((NilSlice, Some ErrAccessDenied), s1)"
  by (simp add: CheckedGet_def)

lemma CheckedPut_error:
  "ds_CanPut D s c ns doc = ((ok, Some e), s1) \<Longrightarrow>
   CheckedPut (D\<lparr>ds_Put := f\<rparr>) s c ns doc v = (Some e, s1)"
  by (simp add: CheckedPut_def)

lemma CheckedPut_denied:
  "ds_CanPut D s c ns doc = ((False, None), s1) \<Longrightarrow>
   CheckedPut (D\<lparr>ds_Put := f\<rparr>) s c ns doc v = (Some ErrAccessDenied, s1)"
  by (simp add: CheckedPut_def)

lemma CheckedAppend_error:
  "ds_CanAppend D s c ns doc = ((ok, Some e), s1) \<Longrightarrow>
   CheckedAppend (D\<lparr>ds_Append := f\<rparr>) s c ns doc delim v = (Some e, s1)"
  by (simp add: CheckedAppend_def)

lemma CheckedAppend_denied:
  "ds_CanAppend D s c ns doc = ((False, None), s1) \<Longrightarrow>
   CheckedAppend (D\<lparr>ds_Append := f\<rparr>) s c ns doc delim v = (Some ErrAccessDenied, s1)"
  by (simp add: CheckedAppend_def)

text \<open>
  C4. For every checked operation and every implementation of the interface: when the
  consulted predicate returns an error, the checked operation returns that very error,
  and when it returns false with no error, the checked operation returns
  \<^verbatim>\<open>ErrAccessDenied\<close>; in both cases the state is the one the predicate left and the
  result does not depend on the underlying method (it is not called). On MemDataStore,
  whose predicates change nothing, a denied checked operation leaves the whole store,
  and the memory, unchanged.
\<close>

theorem gate_short_circuits:
  "(ds_IsRoot D s c = ((ok, Some e), s1) \<longrightarrow>
      CheckedSetAdmin (D\<lparr>ds_SetAdmin := f1\<rparr>) s c token is = (Some e, s1)) \<and>
   (ds_IsAdmin D s c = ((ok, Some e), s1) \<longrightarrow>
      CheckedSetNamespaceAdmin (D\<lparr>ds_SetNamespaceAdmin := f2\<rparr>) s c token ns is
        = (Some e, s1)) \<and>
   (ds_IsNamespaceAdmin D s c ns = ((ok, Some e), s1) \<longrightarrow>
      CheckedSetToken (D\<lparr>ds_SetToken := f3\<rparr>) s c token ns doc get put app = (Some e, s1)) \<and>
   (ds_CanGet D s c ns doc = ((ok, Some e), s1) \<longrightarrow>
      CheckedGet (D\<lparr>ds_Get := f4\<rparr>) s c ns doc = ((NilSlice, Some e), s1)) \<and>
   (ds_CanPut D s c ns doc = ((ok, Some e), s1) \<longrightarrow>
      CheckedPut (D\<lparr>ds_Put := f5\<rparr>) s c ns doc v = (Some e, s1)) \<and>
   (ds_CanAppend D s c ns doc = ((ok, Some e), s1) \<longrightarrow>
      CheckedAppend (D\<lparr>ds_Append := f6\<rparr>) s c ns doc delim v = (Some e, s1)) \<and>
   (ds_IsRoot D' s' c' = ((False, None), s1') \<longrightarrow>
      CheckedSetAdmin (D'\<lparr>ds_SetAdmin := f1\<rparr>) s' c' token is = (Some ErrAccessDenied, s1')) \<and>
   (ds_IsAdmin D' s' c' = ((False, None), s1') \<longrightarrow>
      CheckedSetNamespaceAdmin (D'\<lparr>ds_SetNamespaceAdmin := f2\<rparr>) s' c' token ns is
        = (Some ErrAccessDenied, s1')) \<and>
   (ds_IsNamespaceAdmin D' s' c' ns = ((False, None), s1') \<longrightarrow>
      CheckedSetToken (D'\<lparr>ds_SetToken := f3\<rparr>) s' c' token ns doc get put app
        = (Some ErrAccessDenied, s1')) \<and>
   (ds_CanGet D' s' c' ns doc = ((False, None), s1') \<longrightarrow>
      CheckedGet (D'\<lparr>ds_Get := f4\<rparr>) s' c' ns doc = ((NilSlice, Some ErrAccessDenied), s1')) \<and>
   (ds_CanPut D' s' c' ns doc = ((False, None), s1') \<longrightarrow>
      CheckedPut (D'\<lparr>ds_Put := f5\<rparr>) s' c' ns doc v = (Some ErrAccessDenied, s1')) \<and>
   (ds_CanAppend D' s' c' ns doc = ((False, None), s1') \<longrightarrow>
      CheckedAppend (D'\<lparr>ds_Append := f6\<rparr>) s' c' ns doc delim v
        = (Some ErrAccessDenied, s1')) \<and>
   (\<not> fst (IsRoot ds cl) \<longrightarrow>
      CheckedSetAdmin (memDS g) (m, ds) cl token is = (Some ErrAccessDenied, (m, ds))) \<and>
   (\<not> fst (IsAdmin ds cl) \<longrightarrow>
      CheckedSetNamespaceAdmin (memDS g) (m, ds) cl token ns is
        = (Some ErrAccessDenied, (m, ds))) \<and>
   (\<not> fst (IsNamespaceAdmin ds cl ns) \<longrightarrow>
      CheckedSetToken (memDS g) (m, ds) cl token ns doc get put app
        = (Some ErrAccessDenied, (m, ds))) \<and>
   (\<not> fst (CanGet ds cl ns doc) \<longrightarrow>
      CheckedGet (memDS g) (m, ds) cl ns doc
        = ((NilSlice, Some ErrAccessDenied), (m, ds))) \<and>
   (\<not> fst (CanPut ds cl ns doc) \<longrightarrow>
      CheckedPut (memDS g) (m, ds) cl ns doc v = (Some ErrAccessDenied, (m, ds))) \<and>
   (\<not> fst (CanAppend ds cl ns doc) \<longrightarrow>
      CheckedAppend (memDS g) (m, ds) cl ns doc delim v
        = (Some ErrAccessDenied, (m, ds)))"
proof -
  have m1: "\<not> fst (IsRoot ds cl) \<longrightarrow>
      CheckedSetAdmin (memDS g) (m, ds) cl token is = (Some ErrAccessDenied, (m, ds))"
    by (simp add: CheckedSetAdmin_def memDS_predicates)
  have m2: "\<not> fst (IsAdmin ds cl) \<longrightarrow>
      CheckedSetNamespaceAdmin (memDS g) (m, ds) cl token ns is
        = (Some ErrAccessDenied, (m, ds))"
    by (simp add: CheckedSetNamespaceAdmin_def memDS_predicates)
  have m3: "\<not> fst (IsNamespaceAdmin ds cl ns) \<longrightarrow>
      CheckedSetToken (memDS g) (m, ds) cl token ns doc get put app
        = (Some ErrAccessDenied, (m, ds))"
    by (simp add: CheckedSetToken_def memDS_predicates)
  have m4: "\<not> fst (CanGet ds cl ns doc) \<longrightarrow>
      CheckedGet (memDS g) (m, ds) cl ns doc
        = ((NilSlice, Some ErrAccessDenied), (m, ds))"
    by (simp add: CheckedGet_def memDS_predicates)
  have m5: "\<not> fst (CanPut ds cl ns doc) \<longrightarrow>
      CheckedPut (memDS g) (m, ds) cl ns doc v = (Some ErrAccessDenied, (m, ds))"
    by (simp add: CheckedPut_def memDS_predicates)
  have m6: "\<not> fst (CanAppend ds cl ns doc) \<longrightarrow>
      CheckedAppend (memDS g) (m, ds) cl ns doc delim v
        = (Some ErrAccessDenied, (m, ds))"
    by (simp add: CheckedAppend_def memDS_predicates)
  show ?thesis
    by (intro conjI impI CheckedSetAdmin_error CheckedSetNamespaceAdmin_error
        CheckedSetToken_error CheckedGet_error CheckedPut_error CheckedAppend_error
        CheckedSetAdmin_denied CheckedSetNamespaceAdmin_denied CheckedSetToken_denied
        CheckedGet_denied CheckedPut_denied CheckedAppend_denied
        m1 [rule_format] m2 [rule_format] m3 [rule_format] m4 [rule_format] m5 [rule_format]
        m6 [rule_format])
qed

theorem gate_short_circuits_witness:
  "(let E = Some (ErrOther ''backend'');
        M = memDS (\<lambda>c n. n);
        D = M\<lparr>ds_CanGet := (\<lambda>s t n d. ((True, E), s)),
               ds_CanPut := (\<lambda>s t n d. ((True, E), s)),
               ds_CanAppend := (\<lambda>s t n d. ((True, E), s)),
               ds_IsNamespaceAdmin := (\<lambda>s t n. ((True, E), s)),
               ds_IsAdmin := (\<lambda>s t. ((True, E), s)),
               ds_IsRoot := (\<lambda>s t. ((True, E), s))\<rparr>;
        m0 = [''hi'', ''|''];
        hi = Slice 0 0 2 2;
        bar = Slice 1 0 1 1;
        s0 = (m0, NewMemDataStore ''R'')
    in ds_IsRoot D s0 ''R'' = ((True, E), s0) \<and>
       ds_IsAdmin D s0 ''R'' = ((True, E), s0) \<and>
       ds_IsNamespaceAdmin D s0 ''R'' ''ns1'' = ((True, E), s0) \<and>
       ds_CanGet D s0 ''R'' ''ns1'' ''doc1'' = ((True, E), s0) \<and>
       ds_CanPut D s0 ''R'' ''ns1'' ''doc1'' = ((True, E), s0) \<and>
       ds_CanAppend D s0 ''R'' ''ns1'' ''doc1'' = ((True, E), s0) \<and>
       CheckedSetAdmin (D\<lparr>ds_SetAdmin := ds_SetAdmin M\<rparr>) s0 ''R'' ''A'' True = (E, s0) \<and>
       CheckedSetNamespaceAdmin (D\<lparr>ds_SetNamespaceAdmin := ds_SetNamespaceAdmin M\<rparr>)
           s0 ''R'' ''A'' ''ns1'' True = (E, s0) \<and>
       CheckedSetToken (D\<lparr>ds_SetToken := ds_SetToken M\<rparr>)
           s0 ''R'' ''A'' ''ns1'' ''doc1'' True True True = (E, s0) \<and>
       CheckedGet (D\<lparr>ds_Get := ds_Get M\<rparr>) s0 ''R'' ''ns1'' ''doc1'' = ((NilSlice, E), s0) \<and>
       CheckedPut (D\<lparr>ds_Put := ds_Put M\<rparr>) s0 ''R'' ''ns1'' ''doc1'' hi = (E, s0) \<and>
       CheckedAppend (D\<lparr>ds_Append := ds_Append M\<rparr>) s0 ''R'' ''ns1'' ''doc1'' bar hi
         = (E, s0) \<and>
       ds_IsRoot M s0 ''X'' = ((False, None), s0) \<and>
       ds_IsAdmin M s0 ''X'' = ((False, None), s0) \<and>
       ds_IsNamespaceAdmin M s0 ''X'' ''ns1'' = ((False, None), s0) \<and>
       ds_CanGet M s0 ''X'' ''ns1'' ''doc1'' = ((False, None), s0) \<and>
       ds_CanPut M s0 ''X'' ''ns1'' ''doc1'' = ((False, None), s0) \<and>
       ds_CanAppend M s0 ''X'' ''ns1'' ''doc1'' = ((False, None), s0) \<and>
       \<not> fst (IsRoot (snd s0) ''X'') \<and> \<not> fst (IsAdmin (snd s0) ''X'') \<and>
       \<not> fst (IsNamespaceAdmin (snd s0) ''X'' ''ns1'') \<and>
       \<not> fst (CanGet (snd s0) ''X'' ''ns1'' ''doc1'') \<and>
       \<not> fst (CanPut (snd s0) ''X'' ''ns1'' ''doc1'') \<and>
       \<not> fst (CanAppend (snd s0) ''X'' ''ns1'' ''doc1'') \<and>
       CheckedSetAdmin M s0 ''X'' ''A'' True = (Some ErrAccessDenied, s0) \<and>
       CheckedSetNamespaceAdmin M s0 ''X'' ''A'' ''ns1'' True = (Some ErrAccessDenied, s0) \<and>
       CheckedSetToken M s0 ''X'' ''A'' ''ns1'' ''doc1'' True True True
         = (Some ErrAccessDenied, s0) \<and>
       CheckedGet M s0 ''X'' ''ns1'' ''doc1'' = ((NilSlice, Some ErrAccessDenied), s0) \<and>
       CheckedPut M s0 ''X'' ''ns1'' ''doc1'' hi = (Some ErrAccessDenied, s0) \<and>
       CheckedAppend M s0 ''X'' ''ns1'' ''doc1'' bar hi = (Some ErrAccessDenied, s0))"
proof -
  define E where "E = Some (ErrOther ''backend'')"
  define g0 :: "nat \<Rightarrow> nat \<Rightarrow> nat" where "g0 = (\<lambda>c n. n)"
  define M where "M = memDS g0"
  define D where
    "D = M\<lparr>ds_CanGet := (\<lambda>s t n d. ((True, E), s)),
           ds_CanPut := (\<lambda>s t n d. ((True, E), s)),
           ds_CanAppend := (\<lambda>s t n d. ((True, E), s)),
           ds_IsNamespaceAdmin := (\<lambda>s t n. ((True, E), s)),
           ds_IsAdmin := (\<lambda>s t. ((True, E), s)),
           ds_IsRoot := (\<lambda>s t. ((True, E), s))\<rparr>"
  define m0 :: memory where "m0 = [''hi'', ''|'']"
  define s0 where "s0 = (m0, NewMemDataStore ''R'')"
  have a: "ds_IsRoot D s0 ''R'' = ((True, E), s0)"
    "ds_IsAdmin D s0 ''R'' = ((True, E), s0)"
    "ds_IsNamespaceAdmin D s0 ''R'' ''ns1'' = ((True, E), s0)"
    "ds_CanGet D s0 ''R'' ''ns1'' ''doc1'' = ((True, E), s0)"
    "ds_CanPut D s0 ''R'' ''ns1'' ''doc1'' = ((True, E), s0)"
    "ds_CanAppend D s0 ''R'' ''ns1'' ''doc1'' = ((True, E), s0)"
    by (simp_all add: D_def)
  have c: "\<not> fst (IsRoot (snd s0) ''X'')" "\<not> fst (IsAdmin (snd s0) ''X'')"
    "\<not> fst (IsNamespaceAdmin (snd s0) ''X'' ''ns1'')"
    "\<not> fst (CanGet (snd s0) ''X'' ''ns1'' ''doc1'')"
    "\<not> fst (CanPut (snd s0) ''X'' ''ns1'' ''doc1'')"
    "\<not> fst (CanAppend (snd s0) ''X'' ''ns1'' ''doc1'')"
    by (simp_all add: s0_def mem_defs)
  have b: "ds_IsRoot M s0 ''X'' = ((False, None), s0)"
    "ds_IsAdmin M s0 ''X'' = ((False, None), s0)"
    "ds_IsNamespaceAdmin M s0 ''X'' ''ns1'' = ((False, None), s0)"
    "ds_CanGet M s0 ''X'' ''ns1'' ''doc1'' = ((False, None), s0)"
    "ds_CanPut M s0 ''X'' ''ns1'' ''doc1'' = ((False, None), s0)"
    "ds_CanAppend M s0 ''X'' ''ns1'' ''doc1'' = ((False, None), s0)"
    using c by (simp_all add: M_def memDS_predicates)
  note t = gate_short_circuits [where D = D and s = s0 and c = "''R''" and ok = True
      and e = "ErrOther ''backend''" and ?s1.0 = s0 and D' = M and s' = s0 and c' = "''X''"
      and s1' = s0 and g = g0 and m = m0 and ds = "NewMemDataStore ''R''" and cl = "''X''"
      and token = "''A''" and ns = "''ns1''"
      and doc = "''doc1''" and ?is = True and get = True and put = True and app = True
      and v = "Slice 0 0 2 2" and delim = "Slice 1 0 1 1"
      and ?f1.0 = "ds_SetAdmin M" and ?f2.0 = "ds_SetNamespaceAdmin M"
      and ?f3.0 = "ds_SetToken M" and ?f4.0 = "ds_Get M" and ?f5.0 = "ds_Put M"
      and ?f6.0 = "ds_Append M",
      folded E_def M_def s0_def]
  have u: "D'\<lparr>ds_SetAdmin := ds_SetAdmin D'\<rparr> = D'"
    "D'\<lparr>ds_SetNamespaceAdmin := ds_SetNamespaceAdmin D'\<rparr> = D'"
    "D'\<lparr>ds_SetToken := ds_SetToken D'\<rparr> = D'" "D'\<lparr>ds_Get := ds_Get D'\<rparr> = D'"
    "D'\<lparr>ds_Put := ds_Put D'\<rparr> = D'" "D'\<lparr>ds_Append := ds_Append D'\<rparr> = D'"
    for D' :: "world DataStore"
    by simp_all
  from a b c t show ?thesis
    unfolding Let_def g0_def [symmetric] M_def [symmetric] D_def [symmetric] E_def [symmetric]
      m0_def [symmetric] s0_def [symmetric]
    by (simp add: u)
qed

section \<open>The root token and the tables\<close>

lemma rootToken_unchanged [simp]:
  "rootToken (snd (SetAdmin ds token is)) = rootToken ds"
  "rootToken (snd (SetNamespaceAdmin ds token ns is)) = rootToken ds"
  "rootToken (snd (SetToken ds token ns doc get put app)) = rootToken ds"
  "rootToken (snd (Put ds ns doc v)) = rootToken ds"
  by (simp_all add: SetAdmin_def SetNamespaceAdmin_def SetToken_def Put_def Let_def
        split: option.splits)

lemma rootToken_exec: "rootToken (snd (exec g w c)) = rootToken (snd w)"
  by (cases c) (simp_all add: Checked_mem memDS_predicates memDS_methods)

lemma rootToken_run: "rootToken (snd (run g w cs)) = rootToken (snd w)"
  by (induction cs arbitrary: w) (simp_all add: rootToken_exec)

lemma tokenFree_alt:
  "tokenFree ds token =
     (admins ds token = None \<and>
      (\<forall>ns nsV. nsAdmins ds ns = Some nsV \<longrightarrow> nsV token = None) \<and>
      (\<forall>ns doc. docPerms ds ns doc token = None))"
  by (auto simp: tokenFree_def inAdminSet_def inNamespaceAdminSet_def
        hasPermissionRecord_docPerms split: option.splits)

lemma admins_after:
  "admins (snd (SetAdmin ds token is)) =
     (if is then (admins ds)(token \<mapsto> True) else (admins ds)(token := None))"
  "admins (snd (SetNamespaceAdmin ds token ns is)) = admins ds"
  "admins (snd (SetToken ds token ns doc get put app)) = admins ds"
  "admins (snd (Put ds ns doc v)) = admins ds"
  by (simp_all add: SetAdmin_def SetNamespaceAdmin_def SetToken_def Put_def Let_def
        split: option.splits)

lemma nsAdmins_after:
  "nsAdmins (snd (SetNamespaceAdmin ds token ns is)) =
     (case nsAdmins ds ns of
        None \<Rightarrow> if is then (nsAdmins ds)(ns \<mapsto> Map.empty(token \<mapsto> True)) else nsAdmins ds
      | Some nsV \<Rightarrow>
          if is then (nsAdmins ds)(ns \<mapsto> nsV(token \<mapsto> True))
          else (nsAdmins ds)(ns \<mapsto> nsV(token := None)))"
  "nsAdmins (snd (SetAdmin ds token is)) = nsAdmins ds"
  "nsAdmins (snd (SetToken ds token ns doc get put app)) = nsAdmins ds"
  "nsAdmins (snd (Put ds ns doc v)) = nsAdmins ds"
  by (simp_all add: SetAdmin_def SetNamespaceAdmin_def SetToken_def Put_def Let_def
        split: option.splits)

lemma tokenFree_SetAdmin:
  "tokenFree ds token \<Longrightarrow> \<not> (token' = token \<and> is) \<Longrightarrow>
   tokenFree (snd (SetAdmin ds token' is)) token"
  by (auto simp: tokenFree_alt admins_after nsAdmins_after)

lemma tokenFree_SetNamespaceAdmin:
  "tokenFree ds token \<Longrightarrow> \<not> (token' = token \<and> is) \<Longrightarrow>
   tokenFree (snd (SetNamespaceAdmin ds token' ns is)) token"
  by (auto simp: tokenFree_alt admins_after nsAdmins_after split: option.splits if_splits)

lemma tokenFree_SetToken:
  "tokenFree ds token \<Longrightarrow> \<not> (token' = token \<and> (get \<or> put \<or> app)) \<Longrightarrow>
   tokenFree (snd (SetToken ds token' ns doc get put app)) token"
  by (auto simp: tokenFree_alt admins_after nsAdmins_after docPerms_SetToken)

lemma tokenFree_Put: "tokenFree ds token \<Longrightarrow> tokenFree (snd (Put ds ns doc v)) token"
  by (auto simp: tokenFree_alt admins_after nsAdmins_after)

lemma tokenFree_Append:
  "tokenFree (snd w) token \<Longrightarrow> tokenFree (snd (snd (Append g w ns doc delim v))) token"
  by (auto simp: tokenFree_alt)

lemma tokenFree_exec:
  "tokenFree (snd w) token \<Longrightarrow> \<not> storesToken (snd w) c token \<Longrightarrow>
   tokenFree (snd (exec g w c)) token"
  by (cases c)
    (auto simp: Checked_mem memDS_predicates memDS_methods
          intro: tokenFree_SetAdmin tokenFree_SetNamespaceAdmin tokenFree_SetToken
            tokenFree_Put tokenFree_Append)

lemma tokenFree_run:
  "neverStores g w cs token \<Longrightarrow> tokenFree (snd w) token \<Longrightarrow>
   tokenFree (snd (run g w cs)) token"
  by (induction cs arbitrary: w) (simp_all add: tokenFree_exec)

lemma tokenFree_New: "tokenFree (NewMemDataStore r) token"
  by (simp add: tokenFree_alt docPerms_New) (simp add: NewMemDataStore_def)

text \<open>
  C3, as the claim states it, fails: on a new store with root token \<open>R\<close>,
  \<^verbatim>\<open>CheckedSetAdmin\<close> called by the root token for the root token, and
  \<^verbatim>\<open>SetAdmin\<close> for the root token, put the root token into the Admin Set.
\<close>

theorem root_stored_by_CheckedSetAdmin:
  "rootToken (snd (run (\<lambda>c n. n) ([], NewMemDataStore ''R'')
      [Call_CheckedSetAdmin ''R'' ''R'' True])) = ''R'' \<and>
   inAdminSet (snd (run (\<lambda>c n. n) ([], NewMemDataStore ''R'')
      [Call_CheckedSetAdmin ''R'' ''R'' True])) ''R'' \<and>
   inAdminSet (snd (run (\<lambda>c n. n) ([], NewMemDataStore ''R'') [Call_SetAdmin ''R'' True])) ''R''"
  by (simp add: mem_defs checked_defs inAdminSet_def)

text \<open>
  C3, amended. The root token of a store never changes, and a new store holds the root
  token in none of its tables. After a sequence of calls from a new store, the root
  token is not in the Admin Set, in no Namespace Admin Set and the key of no Permission
  Record, provided no call of the sequence stored it: no \<^verbatim>\<open>SetAdmin\<close>,
  \<^verbatim>\<open>SetNamespaceAdmin\<close> or \<^verbatim>\<open>SetToken\<close> with a granting flag, direct or let through
  by its gate, named the root token as the token to set.
\<close>

theorem root_absent_unless_stored:
  "rootToken (snd (run g (m, NewMemDataStore r) cs)) = r \<and>
   tokenFree (NewMemDataStore r) r \<and>
   (neverStores g (m, NewMemDataStore r) cs r \<longrightarrow>
      \<not> inAdminSet (snd (run g (m, NewMemDataStore r) cs)) r \<and>
      (\<forall>ns. \<not> inNamespaceAdminSet (snd (run g (m, NewMemDataStore r) cs)) r ns) \<and>
      (\<forall>ns doc. \<not> hasPermissionRecord (snd (run g (m, NewMemDataStore r) cs)) r ns doc))"
proof -
  have "rootToken (snd (run g (m, NewMemDataStore r) cs)) = r"
    by (simp add: rootToken_run) (simp add: NewMemDataStore_def)
  moreover have "tokenFree (snd (run g (m, NewMemDataStore r) cs)) r"
    if "neverStores g (m, NewMemDataStore r) cs r"
    using that by (rule tokenFree_run) (simp add: tokenFree_New)
  ultimately show ?thesis
    by (auto simp: tokenFree_New) (auto simp: tokenFree_def)
qed

theorem root_absent_unless_stored_witness:
  "(let m0 = [''hi''];
        g = (\<lambda>c n. n);
        s0 = (m0, NewMemDataStore ''R'');
        cs = [Call_CheckedSetAdmin ''R'' ''A'' True,
              Call_CheckedSetNamespaceAdmin ''A'' ''N'' ''ns1'' True,
              Call_CheckedSetToken ''N'' ''T'' ''ns1'' ''doc1'' True True False,
              Call_CheckedPut ''T'' ''ns1'' ''doc1'' (Slice 0 0 2 2),
              Call_CheckedSetAdmin ''A'' ''R'' True,
              Call_SetAdmin ''R'' False]
    in neverStores g s0 cs ''R'' \<and>
       inAdminSet (snd (run g s0 cs)) ''A'' \<and>
       \<not> inAdminSet (snd (run g s0 cs)) ''R'' \<and>
       (\<forall>ns. \<not> inNamespaceAdminSet (snd (run g s0 cs)) ''R'' ns) \<and>
       (\<forall>ns doc. \<not> hasPermissionRecord (snd (run g s0 cs)) ''R'' ns doc))"
proof -
  define m0 :: memory where "m0 = [''hi'']"
  define g :: "nat \<Rightarrow> nat \<Rightarrow> nat" where "g = (\<lambda>c n. n)"
  define cs where "cs = [Call_CheckedSetAdmin ''R'' ''A'' True,
              Call_CheckedSetNamespaceAdmin ''A'' ''N'' ''ns1'' True,
              Call_CheckedSetToken ''N'' ''T'' ''ns1'' ''doc1'' True True False,
              Call_CheckedPut ''T'' ''ns1'' ''doc1'' (Slice 0 0 2 2),
              Call_CheckedSetAdmin ''A'' ''R'' True,
              Call_SetAdmin ''R'' False]"
  have h: "neverStores g (m0, NewMemDataStore ''R'') cs ''R''"
    by (simp add: cs_def seq_defs)
  have a: "inAdminSet (snd (run g (m0, NewMemDataStore ''R'') cs)) ''A''"
    by (simp add: cs_def seq_defs inAdminSet_def)
  from h a root_absent_unless_stored [of g m0 "''R''" cs]
  show ?thesis
    unfolding Let_def cs_def [symmetric] m0_def [symmetric] g_def [symmetric] by simp
qed

section \<open>Default deny\<close>

text \<open>
  C5, as the claim states it, fails: after the calls below no grant was ever made to
  token \<open>U\<close> on \<open>ns1\<close>/\<open>doc1\<close>, and \<^verbatim>\<open>CanGet\<close> is false for it, yet \<^verbatim>\<open>Get\<close> of
  \<open>ns1\<close>/\<open>doc1\<close> returns the document another token wrote, not the nil slice.
\<close>

theorem ungranted_triple_document_found:
  "(let g = (\<lambda>c n. n);
        s0 = ([''hi''], NewMemDataStore ''R'');
        cs = [Call_CheckedSetAdmin ''R'' ''A'' True,
              Call_CheckedSetNamespaceAdmin ''A'' ''N'' ''ns1'' True,
              Call_CheckedSetToken ''N'' ''T'' ''ns1'' ''doc1'' True True False,
              Call_CheckedPut ''T'' ''ns1'' ''doc1'' (Slice 0 0 2 2)]
    in neverGranted g s0 cs ''U'' ''ns1'' ''doc1'' \<and>
       CanGet (snd (run g s0 cs)) ''U'' ''ns1'' ''doc1'' = (False, None) \<and>
       Get (snd (run g s0 cs)) ''ns1'' ''doc1'' = (Slice 0 0 2 2, None) \<and>
       bytes_of (fst (run g s0 cs)) (Slice 0 0 2 2) = ''hi'')"
  by (simp add: seq_defs array_def)

text \<open>
  C5, amended. After a sequence of calls from a new store in which no grant was made to
  a token on a document, \<^verbatim>\<open>CanGet\<close>, \<^verbatim>\<open>CanPut\<close> and \<^verbatim>\<open>CanAppend\<close> are false for
  that token on that document; \<^verbatim>\<open>Get\<close> returns the nil slice (NotFound) for a document
  that no call of the sequence wrote, whatever was granted; and
  \<^verbatim>\<open>SetToken\<close> with the three flags false leaves no record for the token on the
  document, so that the three queries are false from then on, until a grant is made.
\<close>

theorem default_deny:
  "(neverGranted g (m, NewMemDataStore r) cs token ns doc \<longrightarrow>
      CanGet (snd (run g (m, NewMemDataStore r) cs)) token ns doc = (False, None) \<and>
      CanPut (snd (run g (m, NewMemDataStore r) cs)) token ns doc = (False, None) \<and>
      CanAppend (snd (run g (m, NewMemDataStore r) cs)) token ns doc = (False, None)) \<and>
   (neverWritten g (m, NewMemDataStore r) cs ns doc \<longrightarrow>
      Get (snd (run g (m, NewMemDataStore r) cs)) ns doc = (NilSlice, None)) \<and>
   \<not> hasPermissionRecord (snd (SetToken ds t n d False False False)) t n d \<and>
   (neverGranted g (m', snd (SetToken ds t n d False False False)) cs' t n d \<longrightarrow>
      CanGet (snd (run g (m', snd (SetToken ds t n d False False False)) cs')) t n d
        = (False, None) \<and>
      CanPut (snd (run g (m', snd (SetToken ds t n d False False False)) cs')) t n d
        = (False, None) \<and>
      CanAppend (snd (run g (m', snd (SetToken ds t n d False False False)) cs')) t n d
        = (False, None))"
proof -
  have 1: "docPerms (snd (run g (m, NewMemDataStore r) cs)) ns doc token = None"
    if "neverGranted g (m, NewMemDataStore r) cs token ns doc"
    using that by (rule norecord_run) (simp add: docPerms_New)
  have 2: "Get (snd (run g (m, NewMemDataStore r) cs)) ns doc = (NilSlice, None)"
    if "neverWritten g (m, NewMemDataStore r) cs ns doc"
    using that by (simp add: Get_docSlice docSlice_run docSlice_New)
  have 3: "docPerms (snd (SetToken ds t n d False False False)) n d t = None"
    by (simp add: docPerms_SetToken)
  have 4: "docPerms (snd (run g (m', snd (SetToken ds t n d False False False)) cs')) n d t = None"
    if "neverGranted g (m', snd (SetToken ds t n d False False False)) cs' t n d"
    using that by (rule norecord_run) (simp add: 3)
  from 1 2 3 4 show ?thesis
    by (simp add: norecord_Can hasPermissionRecord_docPerms)
qed

theorem default_deny_witness:
  "(let g = (\<lambda>c n. n);
        s0 = ([''hi''], NewMemDataStore ''R'');
        hi = Slice 0 0 2 2;
        cs = [Call_CheckedSetAdmin ''R'' ''A'' True,
              Call_CheckedSetNamespaceAdmin ''A'' ''N'' ''ns1'' True,
              Call_CheckedSetToken ''N'' ''T'' ''ns1'' ''doc1'' True True False,
              Call_CheckedSetToken ''T'' ''U'' ''ns1'' ''doc2'' True True True,
              Call_CheckedPut ''T'' ''ns1'' ''doc1'' hi,
              Call_CheckedPut ''T'' ''ns1'' ''doc2'' hi];
        s1 = (fst (run g s0 cs),
              snd (SetToken (snd (run g s0 cs)) ''T'' ''ns1'' ''doc1'' False False False));
        cs' = [Call_SetToken ''T'' ''ns1'' ''doc2'' True False False,
               Call_CheckedGet ''T'' ''ns1'' ''doc1'']
    in neverGranted g s0 cs ''U'' ''ns1'' ''doc2'' \<and>
       neverWritten g s0 cs ''ns1'' ''doc2'' \<and>
       CanGet (snd (run g s0 cs)) ''U'' ''ns1'' ''doc2'' = (False, None) \<and>
       CanPut (snd (run g s0 cs)) ''U'' ''ns1'' ''doc2'' = (False, None) \<and>
       CanAppend (snd (run g s0 cs)) ''U'' ''ns1'' ''doc2'' = (False, None) \<and>
       Get (snd (run g s0 cs)) ''ns1'' ''doc2'' = (NilSlice, None) \<and>
       CanGet (snd (run g s0 cs)) ''T'' ''ns1'' ''doc1'' = (True, None) \<and>
       neverGranted g s1 cs' ''T'' ''ns1'' ''doc1'' \<and>
       CanGet (snd (run g s1 cs')) ''T'' ''ns1'' ''doc1'' = (False, None) \<and>
       CanPut (snd (run g s1 cs')) ''T'' ''ns1'' ''doc1'' = (False, None) \<and>
       CanAppend (snd (run g s1 cs')) ''T'' ''ns1'' ''doc1'' = (False, None))"
proof -
  define g :: "nat \<Rightarrow> nat \<Rightarrow> nat" where "g = (\<lambda>c n. n)"
  define s0 :: world where "s0 = ([''hi''], NewMemDataStore ''R'')"
  define cs where "cs = [Call_CheckedSetAdmin ''R'' ''A'' True,
              Call_CheckedSetNamespaceAdmin ''A'' ''N'' ''ns1'' True,
              Call_CheckedSetToken ''N'' ''T'' ''ns1'' ''doc1'' True True False,
              Call_CheckedSetToken ''T'' ''U'' ''ns1'' ''doc2'' True True True,
              Call_CheckedPut ''T'' ''ns1'' ''doc1'' (Slice 0 0 2 2),
              Call_CheckedPut ''T'' ''ns1'' ''doc2'' (Slice 0 0 2 2)]"
  define cs' where "cs' = [Call_SetToken ''T'' ''ns1'' ''doc2'' True False False,
               Call_CheckedGet ''T'' ''ns1'' ''doc1'']"
  define s1 where "s1 = (fst (run g s0 cs),
              snd (SetToken (snd (run g s0 cs)) ''T'' ''ns1'' ''doc1'' False False False))"
  have g1: "neverGranted g s0 cs ''U'' ''ns1'' ''doc2''"
    by (simp add: s0_def cs_def seq_defs)
  have w: "neverWritten g s0 cs ''ns1'' ''doc2''"
    by (simp add: s0_def cs_def seq_defs)
  have b: "CanGet (snd (run g s0 cs)) ''T'' ''ns1'' ''doc1'' = (True, None)"
    by (simp add: s0_def cs_def seq_defs)
  have g': "neverGranted g s1 cs' ''T'' ''ns1'' ''doc1''"
    by (simp add: cs'_def)
  from g1 w b g'
    default_deny [where g = g and m = "[''hi'']" and r = "''R''" and cs = cs
      and token = "''U''" and ns = "''ns1''" and doc = "''doc2''"
      and m' = "fst (run g s0 cs)" and ds = "snd (run g s0 cs)" and t = "''T''"
      and n = "''ns1''" and d = "''doc1''" and cs' = cs', folded s0_def s1_def]
  show ?thesis
    unfolding Let_def g_def [symmetric] s0_def [symmetric] cs_def [symmetric]
      cs'_def [symmetric] s1_def [symmetric]
    by simp
qed

section \<open>NotFound and the empty document\<close>

text \<open>
  C8, as the claim states it, fails: a document written by \<^verbatim>\<open>Put\<close> with the nil
  slice (a value of length zero), or by \<^verbatim>\<open>Append\<close> of an empty delimiter and an empty
  value to a document that did not exist, has been written, and \<^verbatim>\<open>Get\<close> still returns
  the nil slice, the NotFound indicator.
\<close>

theorem written_yet_not_found:
  "(let g = (\<lambda>c n. n);
        s0 = ([[]], NewMemDataStore ''R'');
        empty = Slice 0 0 0 0
    in \<not> neverWritten g s0 [Call_Put ''ns'' ''doc'' NilSlice] ''ns'' ''doc'' \<and>
       Get (snd (run g s0 [Call_Put ''ns'' ''doc'' NilSlice])) ''ns'' ''doc'' = (NilSlice, None) \<and>
       \<not> neverWritten g s0 [Call_Append ''ns'' ''doc'' empty empty] ''ns'' ''doc'' \<and>
       Get (snd (run g s0 [Call_Append ''ns'' ''doc'' empty empty])) ''ns'' ''doc''
         = (NilSlice, None))"
  by (simp add: seq_defs append_defs Append.simps)

text \<open>
  Documents that share an array: \<open>a\<close> is put as the two bytes \<open>ab\<close> of an array and
  \<open>b\<close> as the first byte of the same array, with capacity two. Appending \<open>Z\<close> to \<open>b\<close>
  writes the array in place. No call wrote \<open>a\<close> since it was put and \<^verbatim>\<open>Get\<close> returns
  the slice that was put, but the slice now shows \<open>aZ\<close>.
\<close>

lemma shared_array_shows_through:
  "(let g = (\<lambda>c n. n);
        s0 = ([''ab'', ''Z''], snd (Put (NewMemDataStore ''R'') ''ns'' ''a'' (Slice 0 0 2 2)));
        cs = [Call_Put ''ns'' ''b'' (Slice 0 0 1 2), Call_Append ''ns'' ''b'' NilSlice (Slice 1 0 1 1)]
    in neverWritten g s0 cs ''ns'' ''a'' \<and>
       Get (snd s0) ''ns'' ''a'' = (Slice 0 0 2 2, None) \<and>
       bytes_of (fst s0) (Slice 0 0 2 2) = ''ab'' \<and>
       Get (snd (run g s0 cs)) ''ns'' ''a'' = (Slice 0 0 2 2, None) \<and>
       bytes_of (fst (run g s0 cs)) (Slice 0 0 2 2) = ''aZ'' \<and>
       bytes_of (fst (run g s0 cs)) (fst (Get (snd (run g s0 cs)) ''ns'' ''b'')) = ''aZ'')"
  by (simp add: seq_defs append_defs Append.simps)

text \<open>
  C8, amended. \<^verbatim>\<open>Get\<close> returns the nil slice (NotFound) for a document that no call
  since the creation of the store wrote. \<^verbatim>\<open>Put\<close> followed by \<^verbatim>\<open>Get\<close> returns the very
  slice that was put, with the memory untouched, so the bytes read are exactly the bytes
  put, for every value; the result is the nil slice exactly when the value put is the
  nil slice, so a document put with an empty non-nil slice yields that empty non-nil
  slice, which is not the NotFound indicator. After \<^verbatim>\<open>Append\<close>, \<^verbatim>\<open>Get\<close> returns the
  nil slice exactly when the document was nil or absent before and neither the delimiter
  nor the value has a byte. Calls that do not write a document do not change which
  slice \<^verbatim>\<open>Get\<close> returns for it (its array, offset and length, hence found or not
  found); the bytes of that array are another matter, since an append to a document that
  shares the array writes them in place.
\<close>

theorem notfound_and_roundtrip:
  "(neverWritten g (m, NewMemDataStore r) cs ns doc \<longrightarrow>
      Get (snd (run g (m, NewMemDataStore r) cs)) ns doc = (NilSlice, None)) \<and>
   Get (snd (Put ds ns doc v)) ns doc = (v, None) \<and>
   ds_Get (memDS g) (snd (ds_Put (memDS g) (m, ds) ns doc v)) ns doc
     = ((v, None), (m, snd (Put ds ns doc v))) \<and>
   (fst (Get (snd (Put ds ns doc v)) ns doc) = NilSlice) = (v = NilSlice) \<and>
   Get (snd (Put ds ns doc (Slice a off 0 c))) ns doc = (Slice a off 0 c, None) \<and>
   Slice a off 0 c \<noteq> NilSlice \<and> bytes_of m (Slice a off 0 c) = [] \<and>
   (fst (Get (snd (snd (Append g (m, ds) ns doc delim v))) ns doc) = NilSlice)
     = (fst (Get ds ns doc) = NilSlice \<and> bytes_of m delim = [] \<and> bytes_of m v = []) \<and>
   (neverWritten g w cs' ns doc \<longrightarrow> Get (snd (run g w cs')) ns doc = Get (snd w) ns doc)"
  by (simp add: Get_docSlice docSlice_run docSlice_New docSlice_Put memDS_methods
        Append_nil_iff)

theorem notfound_and_roundtrip_witness:
  "(let g = (\<lambda>c n. n);
        s0 = ([''ab'', ''Z''], NewMemDataStore ''R'');
        cs = [Call_Put ''ns'' ''b'' (Slice 0 0 1 2),
              Call_CheckedPut ''T'' ''ns'' ''a'' (Slice 1 0 1 1),
              Call_Get ''ns'' ''a''];
        w = (fst s0, snd (Put (snd s0) ''ns'' ''a'' (Slice 0 0 2 2)));
        cs' = [Call_Put ''ns'' ''b'' (Slice 0 0 1 2),
               Call_Append ''ns'' ''b'' NilSlice (Slice 1 0 1 1),
               Call_CheckedAppend ''T'' ''ns'' ''a'' NilSlice (Slice 1 0 1 1)]
    in neverWritten g s0 cs ''ns'' ''a'' \<and>
       Get (snd (run g s0 cs)) ''ns'' ''a'' = (NilSlice, None) \<and>
       Get (snd (run g s0 cs)) ''ns'' ''b'' = (Slice 0 0 1 2, None) \<and>
       neverWritten g w cs' ''ns'' ''a'' \<and>
       Get (snd w) ''ns'' ''a'' = (Slice 0 0 2 2, None) \<and>
       Get (snd (run g w cs')) ''ns'' ''a'' = (Slice 0 0 2 2, None))"
proof -
  define g :: "nat \<Rightarrow> nat \<Rightarrow> nat" where "g = (\<lambda>c n. n)"
  define s0 :: world where "s0 = ([''ab'', ''Z''], NewMemDataStore ''R'')"
  define cs where "cs = [Call_Put ''ns'' ''b'' (Slice 0 0 1 2),
              Call_CheckedPut ''T'' ''ns'' ''a'' (Slice 1 0 1 1),
              Call_Get ''ns'' ''a'']"
  define w where "w = (fst s0, snd (Put (snd s0) ''ns'' ''a'' (Slice 0 0 2 2)))"
  define cs' where "cs' = [Call_Put ''ns'' ''b'' (Slice 0 0 1 2),
               Call_Append ''ns'' ''b'' NilSlice (Slice 1 0 1 1),
               Call_CheckedAppend ''T'' ''ns'' ''a'' NilSlice (Slice 1 0 1 1)]"
  have h: "neverWritten g s0 cs ''ns'' ''a''"
    by (simp add: s0_def cs_def seq_defs)
  have b: "Get (snd (run g s0 cs)) ''ns'' ''b'' = (Slice 0 0 1 2, None)"
    by (simp add: s0_def cs_def seq_defs)
  have h': "neverWritten g w cs' ''ns'' ''a''"
    by (simp add: w_def s0_def cs'_def seq_defs Append_tables)
  have p: "Get (snd w) ''ns'' ''a'' = (Slice 0 0 2 2, None)"
    by (simp add: w_def Get_docSlice docSlice_Put)
  from h b h' p
    notfound_and_roundtrip [where g = g and m = "[''ab'', ''Z'']" and r = "''R''" and cs = cs
      and ns = "''ns''" and doc = "''a''" and w = w and cs' = cs', folded s0_def]
  show ?thesis
    unfolding Let_def g_def [symmetric] s0_def [symmetric] cs_def [symmetric]
      cs'_def [symmetric] w_def [symmetric]
    by simp
qed

section \<open>The set-permission request\<close>

text \<open>\<^verbatim>\<open>SetToken\<close> sets each bit from the parameter of its name.\<close>

lemma Can_after_SetToken:
  "CanGet (snd (SetToken ds token ns doc get put app)) token ns doc = (get, None)"
  "CanPut (snd (SetToken ds token ns doc get put app)) token ns doc = (put, None)"
  "CanAppend (snd (SetToken ds token ns doc get put app)) token ns doc = (app, None)"
  by (auto simp: Can_docPerms docPerms_SetToken newPerms_bits indexPerms_def)
   (simp_all add: permGet_def permPut_def permAppend_def)

text \<open>
  What a successful request leaves: \<^verbatim>\<open>CanGet\<close> is the request's \<^verbatim>\<open>Put\<close> flag and
  \<^verbatim>\<open>CanPut\<close> its \<^verbatim>\<open>Get\<close> flag; only \<^verbatim>\<open>Append\<close> arrives under its own name.
\<close>

lemma setToken_bits:
  assumes "fst (IsNamespaceAdmin ds clientToken ns)" and "req_Token str \<noteq> []"
  shows "setToken (memDS g) generated (m, ds) clientToken ns doc str =
           (ReturnJSON str, (m, snd (SetToken ds (req_Token str) ns doc
              (req_Put str) (req_Get str) (req_Append str))))"
    and "CanGet (snd (snd (setToken (memDS g) generated (m, ds) clientToken ns doc str)))
           (req_Token str) ns doc = (req_Put str, None)"
    and "CanPut (snd (snd (setToken (memDS g) generated (m, ds) clientToken ns doc str)))
           (req_Token str) ns doc = (req_Get str, None)"
    and "CanAppend (snd (snd (setToken (memDS g) generated (m, ds) clientToken ns doc str)))
           (req_Token str) ns doc = (req_Append str, None)"
proof -
  have e: "fst (SetToken ds (req_Token str) ns doc (req_Put str) (req_Get str)
      (req_Append str)) = None"
    by (simp add: SetToken_alt)
  show 1: "setToken (memDS g) generated (m, ds) clientToken ns doc str =
           (ReturnJSON str, (m, snd (SetToken ds (req_Token str) ns doc
              (req_Put str) (req_Get str) (req_Append str))))"
    using assms by (simp add: setToken_def Checked_mem checkErr_def e)
  show "CanGet (snd (snd (setToken (memDS g) generated (m, ds) clientToken ns doc str)))
           (req_Token str) ns doc = (req_Put str, None)"
    "CanPut (snd (snd (setToken (memDS g) generated (m, ds) clientToken ns doc str)))
           (req_Token str) ns doc = (req_Get str, None)"
    "CanAppend (snd (snd (setToken (memDS g) generated (m, ds) clientToken ns doc str)))
           (req_Token str) ns doc = (req_Append str, None)"
    by (simp_all add: 1 Can_after_SetToken)
qed

text \<open>
  C2 fails on the code. The handler passes the request's \<^verbatim>\<open>Put\<close> flag as the
  \<^verbatim>\<open>get\<close> argument of \<^verbatim>\<open>CheckedSetToken\<close> and its \<^verbatim>\<open>Get\<close> flag as the \<^verbatim>\<open>put\<close>
  argument: a successful request by namespace admin \<open>N\<close> for token \<open>T\<close> with
  get true, put false and append false leaves \<^verbatim>\<open>CanGet\<close> false and \<^verbatim>\<open>CanPut\<close>
  true for \<open>T\<close>.
\<close>

theorem setToken_request_swaps_get_put:
  "(let s0 = (m, snd (SetNamespaceAdmin (NewMemDataStore ''R'') ''N'' ''ns1'' True));
        str = \<lparr>req_Token = ''T'', req_Put = False, req_Get = True, req_Append = False\<rparr>;
        (resp, s1) = setToken (memDS g) ''generated'' s0 ''N'' ''ns1'' ''doc1'' str
    in resp = ReturnJSON str \<and>
       CanGet (snd s1) ''T'' ''ns1'' ''doc1'' = (False, None) \<and>
       CanPut (snd s1) ''T'' ''ns1'' ''doc1'' = (True, None) \<and>
       CanAppend (snd s1) ''T'' ''ns1'' ''doc1'' = (False, None))"
  by (simp add: setToken_def checkErr_def seq_defs)

end
